theory Spec2Isabelle
  imports Complex_Main "HOL-Library.Word" "HOL-Library.Sublist"
begin

section \<open>The stream server of snapcast (server/streamServer.cpp)\<close>

text \<open>
  The coordinator \<^verbatim>\<open>StreamServer\<close> is embedded as functions on an explicit state.
  It calls into classes whose code is not part of streamServer.cpp (ClientSession,
  ControlServer, ControlSession, Config, JsonRequest, the messages). A call of a method of
  such a class whose effect lies outside the coordinator is recorded, in program order, as an
  event of the \<open>trace\<close> of the state; what the coordinator reads back from such a class
  (\<^verbatim>\<open>active()\<close>, \<^verbatim>\<open>macAddress\<close>, \<^verbatim>\<open>getIP()\<close>, the ClientInfo records) is a
  field of the state. The members \<^verbatim>\<open>sessions_\<close>, \<^verbatim>\<open>settings_\<close>, \<^verbatim>\<open>sampleFormat_\<close>
  and \<^verbatim>\<open>mutex_\<close> lose their trailing underscore, which a constant cannot carry.
\<close>

subsection \<open>Messages of the binary protocol\<close>

text \<open>
  The time stamps of the envelope: seconds and microseconds, 32-bit signed integers. The
  difference of two of them in C++ is the \<^verbatim>\<open>int\<close> subtraction, modelled by the
  subtraction of \<^typ>\<open>32 word\<close> read with \<^const>\<open>sint\<close>.
\<close>

record tv =
  sec :: "32 word"
  usec :: "32 word"

text \<open>The fields of \<^verbatim>\<open>msg::BaseMessage\<close> the coordinator reads.\<close>

record base_message =
  msg_id :: "16 word"
  sent :: tv
  received :: tv

datatype request_kind = kTime | kServerSettings | kSampleFormat | kHeader | kOtherRequest

text \<open>
  A message from a client after \<^verbatim>\<open>deserialize(baseMessage, buffer)\<close>: the constructor
  is the envelope's \<^verbatim>\<open>type\<close> (kRequest, kCommand, kHello, any other), the arguments
  are the envelope and the payload (for Hello: MAC address, host name, version).
\<close>

datatype client_message =
    Request base_message request_kind
  | Command base_message string
  | Hello base_message string string string
  | OtherMessage base_message

record time_msg =
  time_refersTo :: "16 word"
  time_latency :: real

record server_settings_msg =
  ss_refersTo :: "16 word"
  ss_bufferMs :: int
  ss_volume :: nat
  ss_muted :: bool
  ss_latency :: int

record sample_format_msg =
  sf_refersTo :: "16 word"
  sf_rate :: nat
  sf_bits :: nat
  sf_channels :: nat

record header_msg =
  hd_refersTo :: "16 word"
  hd_codec :: string
  hd_payload :: "8 word list"

record pcm_chunk =
  chunk_timestamp :: tv
  chunk_payload :: "8 word list"

text \<open>What the server sends to a client session.\<close>

datatype message =
    Time time_msg
  | ServerSettings server_settings_msg
  | SampleFormat sample_format_msg
  | Header header_msg
  | Ack "16 word"
  | PcmChunk pcm_chunk

subsection \<open>ClientInfo and the Config store\<close>

record timeval =
  tv_sec :: int
  tv_usec :: int

record volume_t =
  percent :: nat
  muted :: bool

record client_info =
  MAC :: string
  hostName :: string
  ipAddress :: string
  version :: string
  name :: string
  connected :: bool
  lastSeen :: timeval
  volume :: volume_t
  latency :: int

text \<open>
  Modelled from the spec: the class Config (config.h is not part of the sources), "the
  persistent map of client identity to settings", with the records in the order of their
  creation. \<open>blank\<close> holds the field values of a newly constructed ClientInfo, which the
  spec does not give; its MAC is the key it is created for.
\<close>

record config =
  clients :: "client_info list"
  blank :: client_info

subsection \<open>JSON-RPC\<close>

datatype json =
    JNull
  | JBool bool
  | JInt int
  | JString string
  | JClientInfo client_info
  | JArray "json list"
  | JObject "(string \<times> json) list"

text \<open>A parsed request (\<^verbatim>\<open>JsonRequest\<close> after \<^verbatim>\<open>parse\<close>): method, id and params.\<close>

record json_request =
  "method" :: string
  req_id :: int
  params :: "(string \<times> json) list"

text \<open>
  The exceptions the dispatcher throws or catches. The first five are the subclasses of
  \<^verbatim>\<open>JsonRequestException\<close>; \<open>std_exception\<close> is any other \<^verbatim>\<open>std::exception\<close>,
  with its \<^verbatim>\<open>what()\<close>.
\<close>

datatype json_exception =
    JsonParseErrorException
  | JsonInvalidRequestException int
  | JsonMethodNotFoundException int
  | JsonInvalidParamsException int
  | JsonInternalErrorException string int
  | std_exception string

text \<open>
  What a control session is sent as the answer to a request: the result with the request's
  id (\<^verbatim>\<open>request.getResponse(response)\<close>), or the error object of an exception
  (\<^verbatim>\<open>e.getResponse()\<close>).
\<close>

datatype response =
    Result json int
  | Error json_exception

text \<open>What \<^verbatim>\<open>controlServer_->send\<close> broadcasts to all control peers: a line of text, or
  a notification \<^verbatim>\<open>JsonNotification::getJson(method, clientInfo->toJson())\<close>.\<close>

datatype control_message =
    Text string
  | Notification string client_info

subsection \<open>The state of the coordinator\<close>

record client_session =
  macAddress :: string
  active :: bool
  ip :: string

datatype event =
    Lock
  | Unlock
  | Thread_stop nat
  | Control_send control_message
  | Session_add nat message
  | Session_send nat message
  | Session_setStreamActive nat bool
  | Session_setBufferMs nat int
  | Session_start nat
  | Roster_insert nat
  | Roster_erase nat
  | ClientInfo_create string
  | ClientInfo_assign string
  | Config_save "client_info list"
  | Reply nat response

text \<open>
  \<open>sessions\<close> is the roster \<^verbatim>\<open>std::set<shared_ptr<ClientSession>>\<close> in the order of
  its iteration, each pointer a number; \<open>heap\<close> holds the session objects the pointers
  refer to. \<open>bufferMs\<close> is \<^verbatim>\<open>settings_.bufferMs\<close>, \<open>pipeHeader\<close> the header that
  \<^verbatim>\<open>pipeReader_->getHeader()\<close> points to, \<open>host\<close> and \<open>VERSION\<close> the results of
  \<^verbatim>\<open>getHostName()\<close> and the macro. The events \<open>Lock\<close> and \<open>Unlock\<close> are the
  construction and the end of scope of a \<^verbatim>\<open>std::unique_lock\<close> on \<^verbatim>\<open>mutex_\<close>;
  \<open>Roster_insert\<close>, \<open>Roster_erase\<close>, \<open>ClientInfo_create\<close> and \<open>ClientInfo_assign\<close>
  mark the statements that change the roster or the ClientInfo store.
\<close>

record stream_server =
  sessions :: "nat list"
  heap :: "nat \<Rightarrow> client_session"
  config :: config
  bufferMs :: int
  sampleFormat :: sample_format_msg
  pipeHeader :: header_msg
  host :: string
  VERSION :: string
  trace :: "event list"

definition emit :: "event \<Rightarrow> stream_server \<Rightarrow> stream_server" where
  "emit e s = s\<lparr>trace := trace s @ [e]\<rparr>"

text \<open>The events a call has added to the trace of the state it started from.\<close>

definition emitted :: "stream_server \<Rightarrow> stream_server \<Rightarrow> event list" where
  "emitted s s' = drop (length (trace s)) (trace s')"

subsection \<open>The interface of the Config store\<close>

text \<open>
  Modelled from the spec: the constructor of ClientInfo and the search of the store for a
  MAC (config.h is not part of the sources). The MAC is "identity, unique": the search
  returns the first record of that MAC.
\<close>

definition newClientInfo :: "config \<Rightarrow> string \<Rightarrow> client_info" where
  "newClientInfo cfg mac = (blank cfg)\<lparr>MAC := mac\<rparr>"

definition findClientInfo :: "string \<Rightarrow> client_info list \<Rightarrow> client_info option" where
  "findClientInfo mac cs = find (\<lambda>c. MAC c = mac) cs"

text \<open>
  Modelled from the spec: \<^verbatim>\<open>Config::getClientInfo(mac, add)\<close> (config.h is not part of
  the sources), "look up or create ClientInfo": the record of that MAC; when there is none,
  a new record is added to the store if \<open>add\<close> is set, and the null pointer is returned
  otherwise. Called without the second argument (Hello, onDisconnect) it creates.
\<close>

definition getClientInfo :: "string \<Rightarrow> bool \<Rightarrow> stream_server \<Rightarrow> client_info option \<times> stream_server" where
  "getClientInfo mac add s =
     (case findClientInfo mac (clients (config s)) of
        Some c \<Rightarrow> (Some c, s)
      | None \<Rightarrow>
          if add
          then (Some (newClientInfo (config s) mac),
                emit (ClientInfo_create mac)
                  (s\<lparr>config := (config s)\<lparr>clients := clients (config s) @ [newClientInfo (config s) mac]\<rparr>\<rparr>))
          else (None, s))"

text \<open>
  A \<^verbatim>\<open>ClientInfoPtr\<close> points into the store. The handlers keep the record it points to
  in a local value, and every assignment through the pointer writes the changed record back
  to the store, in the place of the first record of its MAC.
\<close>

fun putClientInfo :: "client_info \<Rightarrow> client_info list \<Rightarrow> client_info list" where
  "putClientInfo c [] = []"
| "putClientInfo c (x # xs) = (if MAC x = MAC c then c # xs else x # putClientInfo c xs)"

definition assign :: "client_info \<Rightarrow> stream_server \<Rightarrow> stream_server" where
  "assign c s =
     emit (ClientInfo_assign (MAC c))
       (s\<lparr>config := (config s)\<lparr>clients := putClientInfo c (clients (config s))\<rparr>\<rparr>)"

text \<open>\<^verbatim>\<open>Config::instance().save()\<close>: the event holds the records that are persisted.\<close>

definition save :: "stream_server \<Rightarrow> stream_server" where
  "save s = emit (Config_save (clients (config s))) s"

subsection \<open>The roster\<close>

definition getClientSession :: "string \<Rightarrow> stream_server \<Rightarrow> nat option" where
  "getClientSession mac s = find (\<lambda>session. macAddress (heap s session) = mac) (sessions s)"

text \<open>
  The first loop of \<^verbatim>\<open>send\<close>: the iterator runs over the roster, here the pointers
  still to visit, and an inactive session is stopped in a detached thread, reported to the
  control peers and erased.
\<close>

fun sweep :: "nat list \<Rightarrow> stream_server \<Rightarrow> stream_server" where
  "sweep [] s = s"
| "sweep (it # rest) s =
     sweep rest
       (if \<not> active (heap s it)
        then (emit (Roster_erase it)
               (emit (Control_send (Text (''Client gone: '' @ macAddress (heap s it))))
                 (emit (Thread_stop it) s)))\<lparr>sessions := remove1 it (sessions s)\<rparr>
        else s)"

text \<open>The second loop: \<^verbatim>\<open>add\<close> of the one shared message on every session of the roster.\<close>

fun addAll :: "message \<Rightarrow> nat list \<Rightarrow> stream_server \<Rightarrow> stream_server" where
  "addAll shared_message [] s = s"
| "addAll shared_message (p # ps) s = addAll shared_message ps (emit (Session_add p shared_message) s)"

definition send :: "stream_server \<Rightarrow> message \<Rightarrow> stream_server" where
  "send s msg =
     (let s1 = emit Lock s;
          s2 = sweep (sessions s1) s1;
          s3 = addAll msg (sessions s2) s2
      in emit Unlock s3)"

definition onChunkRead :: "stream_server \<Rightarrow> pcm_chunk \<Rightarrow> stream_server" where
  "onChunkRead s chunk = send s (PcmChunk chunk)"

text \<open>
  \<^verbatim>\<open>handleAccept\<close>: \<open>session\<close> is the pointer \<^verbatim>\<open>make_shared\<close> returns, \<open>obj\<close> the
  session object it constructs. The roster is a set ordered by the pointers.
\<close>

definition handleAccept :: "stream_server \<Rightarrow> nat \<Rightarrow> client_session \<Rightarrow> stream_server" where
  "handleAccept s session obj =
     (let s0 = s\<lparr>heap := (heap s)(session := obj)\<rparr>;
          s1 = emit Lock s0;
          s2 = emit (Session_setBufferMs session (bufferMs s1)) s1;
          s3 = emit (Session_start session) s2;
          s4 = (emit (Roster_insert session) s3)
                 \<lparr>sessions := (if session \<in> set (sessions s3) then sessions s3
                                else insort session (sessions s3))\<rparr>
      in emit Unlock s4)"

definition onDisconnect :: "stream_server \<Rightarrow> nat \<Rightarrow> timeval \<Rightarrow> stream_server" where
  "onDisconnect s connection now =
     (case getClientInfo (macAddress (heap s connection)) True s of
        (None, s1) \<Rightarrow> s1
      | (Some client, s1) \<Rightarrow>
          (let c1 = client\<lparr>connected := False\<rparr>;
               s2 = assign c1 s1;
               c2 = c1\<lparr>lastSeen := now\<rparr>;
               s3 = assign c2 s2;
               s4 = save s3
           in emit (Control_send (Notification ''Client.OnDisconnect'' c2)) s4))"

subsection \<open>Double-precision arithmetic\<close>

text \<open>
  Line 214 computes the latency in \<^verbatim>\<open>double\<close>: the two \<^verbatim>\<open>int\<close> differences are
  converted, which is exact for 32-bit integers, and the quotient and the sum are each
  rounded to the nearest double, a tie going to the even significand (IEEE 754 binary64 in
  its default rounding mode). A double is a real number here. \<open>binade x\<close> is the exponent
  e with 2^e \<le> x < 2^(e+1) of a positive x, not below -1022, where the subnormal numbers
  begin; the doubles of that binade are the multiples of \<open>ulp x\<close> = 2^(e - 52). From 2^1024
  on IEEE arithmetic yields an infinity, which no real number stands for; the operands of
  the dispatcher stay below 2^32.
\<close>

definition round_to_even :: "real \<Rightarrow> int" where
  "round_to_even q =
     (if q - of_int \<lfloor>q\<rfloor> < 1 / 2 then \<lfloor>q\<rfloor>
      else if 1 / 2 < q - of_int \<lfloor>q\<rfloor> then \<lfloor>q\<rfloor> + 1
      else if even \<lfloor>q\<rfloor> then \<lfloor>q\<rfloor> else \<lfloor>q\<rfloor> + 1)"

fun binade_up :: "nat \<Rightarrow> real \<Rightarrow> int" where
  "binade_up 0 x = 0"
| "binade_up (Suc n) x = (if x < 2 then 0 else 1 + binade_up n (x / 2))"

fun binade_down :: "nat \<Rightarrow> real \<Rightarrow> int" where
  "binade_down 0 x = 0"
| "binade_down (Suc n) x = (if 1 \<le> x then 0 else binade_down n (2 * x) - 1)"

definition binade :: "real \<Rightarrow> int" where
  "binade x = (if 1 \<le> x then binade_up 1023 x else binade_down 1022 x)"

definition ulp :: "real \<Rightarrow> real" where
  "ulp x = (if 52 \<le> binade x then 2 ^ nat (binade x - 52) else 1 / 2 ^ nat (52 - binade x))"

definition to_double :: "real \<Rightarrow> real" where
  "to_double x =
     (if 0 \<le> x then of_int (round_to_even (x / ulp x)) * ulp x
      else - (of_int (round_to_even (- x / ulp (- x))) * ulp (- x)))"

subsection \<open>The binary dispatcher\<close>

text \<open>
  \<^verbatim>\<open>onMessageReceived(ClientSession*, const msg::BaseMessage&, char*)\<close>, one equation
  for each branch. \<open>connection\<close> is the pointer to the session the message came from and
  \<open>now\<close> what \<^verbatim>\<open>gettimeofday\<close> returns. The latency of the Time reply is
  computed as in line 214: the differences in 32-bit integers, the quotient and the sum in
  double arithmetic.
\<close>

fun onMessageReceived_client ::
  "stream_server \<Rightarrow> nat \<Rightarrow> client_message \<Rightarrow> timeval \<Rightarrow> stream_server" where
  "onMessageReceived_client s connection (Request requestMsg kTime) now =
     emit (Session_send connection (Time
       \<lparr>time_refersTo = msg_id requestMsg,
        time_latency =
          to_double
            (real_of_int (sint (sec (received requestMsg) - sec (sent requestMsg)))
             + to_double
                 (real_of_int (sint (usec (received requestMsg) - usec (sent requestMsg)))
                  / 1000000))\<rparr>)) s"
| "onMessageReceived_client s connection (Request requestMsg kServerSettings) now =
     (let s1 = emit Lock s in
      case getClientInfo (macAddress (heap s1 connection)) True s1 of
        (None, s2) \<Rightarrow> emit Unlock s2
      | (Some clientInfo, s2) \<Rightarrow>
          emit Unlock
            (emit (Session_send connection (ServerSettings
               \<lparr>ss_refersTo = msg_id requestMsg,
                ss_bufferMs = bufferMs s2,
                ss_volume = percent (volume clientInfo),
                ss_muted = muted (volume clientInfo),
                ss_latency = latency clientInfo\<rparr>)) s2))"
| "onMessageReceived_client s connection (Request requestMsg kSampleFormat) now =
     (let s1 = emit Lock s;
          s2 = s1\<lparr>sampleFormat := (sampleFormat s1)\<lparr>sf_refersTo := msg_id requestMsg\<rparr>\<rparr>;
          s3 = emit (Session_send connection (SampleFormat (sampleFormat s2))) s2
      in emit Unlock s3)"
| "onMessageReceived_client s connection (Request requestMsg kHeader) now =
     (let s1 = emit Lock s;
          s2 = s1\<lparr>pipeHeader := (pipeHeader s1)\<lparr>hd_refersTo := msg_id requestMsg\<rparr>\<rparr>;
          s3 = emit (Session_send connection (Header (pipeHeader s2))) s2
      in emit Unlock s3)"
| "onMessageReceived_client s connection (Request requestMsg kOtherRequest) now = s"
| "onMessageReceived_client s connection (Command commandMsg command) now =
     (if command = ''startStream''
      then emit (Session_setStreamActive connection True)
             (emit (Session_send connection (Ack (msg_id commandMsg))) s)
      else s)"
| "onMessageReceived_client s connection (Hello helloMsg mac hostname vers) now =
     (let s1 = s\<lparr>heap := (heap s)(connection := (heap s connection)\<lparr>macAddress := mac\<rparr>)\<rparr> in
      case getClientInfo (macAddress (heap s1 connection)) True s1 of
        (None, s2) \<Rightarrow> s2
      | (Some client, s2) \<Rightarrow>
          (let c1 = client\<lparr>ipAddress := ip (heap s2 connection)\<rparr>;
               s3 = assign c1 s2;
               c2 = c1\<lparr>hostName := hostname\<rparr>;
               s4 = assign c2 s3;
               c3 = c2\<lparr>version := vers\<rparr>;
               s5 = assign c3 s4;
               c4 = c3\<lparr>connected := True\<rparr>;
               s6 = assign c4 s5;
               c5 = c4\<lparr>lastSeen := now\<rparr>;
               s7 = assign c5 s6;
               s8 = save s7
           in emit (Control_send (Notification ''Client.OnConnect'' c5)) s8))"
| "onMessageReceived_client s connection (OtherMessage baseMessage) now = s"

subsection \<open>The JSON-RPC dispatcher\<close>

text \<open>
  Modelled from the spec: the accessors of \<^verbatim>\<open>JsonRequest\<close> (json/jsonrpc.h is not part
  of the sources). \<^verbatim>\<open>getParam(key)\<close> returns the parameter and
  \<^verbatim>\<open>getParam<T>(key, lowerRange, upperRange)\<close> its value of type T; "parameter range
  violations" raise InvalidParams, as a missing parameter is taken to do. \<^verbatim>\<open>get<T>()\<close>
  of a JSON value of another type raises an exception of the JSON library.
\<close>

definition hasParam :: "json_request \<Rightarrow> string \<Rightarrow> bool" where
  "hasParam request key = (map_of (params request) key \<noteq> None)"

definition getParam :: "json_request \<Rightarrow> string \<Rightarrow> json_exception + json" where
  "getParam request key =
     (case map_of (params request) key of
        None \<Rightarrow> Inl (JsonInvalidParamsException (req_id request))
      | Some v \<Rightarrow> Inr v)"

fun get_string :: "json \<Rightarrow> json_exception + string" where
  "get_string (JString x) = Inr x"
| "get_string j = Inl (std_exception ''type must be string'')"

fun get_int :: "json \<Rightarrow> json_exception + int" where
  "get_int (JInt v) = Inr v"
| "get_int j = Inl (std_exception ''type must be number'')"

fun get_bool :: "json \<Rightarrow> json_exception + bool" where
  "get_bool (JBool b) = Inr b"
| "get_bool j = Inl (std_exception ''type must be boolean'')"

definition getParam_string :: "json_request \<Rightarrow> string \<Rightarrow> json_exception + string" where
  "getParam_string request key =
     (case getParam request key of Inl e \<Rightarrow> Inl e | Inr j \<Rightarrow> get_string j)"

definition getParam_int :: "json_request \<Rightarrow> string \<Rightarrow> int \<Rightarrow> int \<Rightarrow> json_exception + int" where
  "getParam_int request key lowerRange upperRange =
     (case getParam request key of
        Inl e \<Rightarrow> Inl e
      | Inr j \<Rightarrow>
          (case get_int j of
             Inl e \<Rightarrow> Inl e
           | Inr v \<Rightarrow>
               if v < lowerRange then Inl (JsonInvalidParamsException (req_id request))
               else if v > upperRange then Inl (JsonInvalidParamsException (req_id request))
               else Inr v))"

definition getParam_bool :: "json_request \<Rightarrow> string \<Rightarrow> bool \<Rightarrow> bool \<Rightarrow> json_exception + bool" where
  "getParam_bool request key lowerRange upperRange =
     (case getParam request key of
        Inl e \<Rightarrow> Inl e
      | Inr j \<Rightarrow>
          (case get_bool j of
             Inl e \<Rightarrow> Inl e
           | Inr v \<Rightarrow>
               if v < lowerRange then Inl (JsonInvalidParamsException (req_id request))
               else if v > upperRange then Inl (JsonInvalidParamsException (req_id request))
               else Inr v))"

text \<open>Modelled from the spec: the code of the error object of each exception (section 6).\<close>

fun error_code :: "json_exception \<Rightarrow> int" where
  "error_code JsonParseErrorException = - 32700"
| "error_code (JsonInvalidRequestException i) = - 32600"
| "error_code (JsonMethodNotFoundException i) = - 32601"
| "error_code (JsonInvalidParamsException i) = - 32602"
| "error_code (JsonInternalErrorException m i) = - 32603"
| "error_code (std_exception m) = - 32603"

text \<open>
  Lines 123 to 128: a method that starts with \<^verbatim>\<open>Client.Set\<close> needs a known client. The
  result is the local \<^verbatim>\<open>clientInfo\<close>, \<open>None\<close> the null pointer.
\<close>

definition lookupTarget ::
  "stream_server \<Rightarrow> json_request \<Rightarrow> (json_exception + client_info option) \<times> stream_server" where
  "lookupTarget s request =
     (if prefix ''Client.Set'' (method request)
      then (case getParam_string request ''client'' of
              Inl e \<Rightarrow> (Inl e, s)
            | Inr mac \<Rightarrow>
                (case getClientInfo mac False s of
                   (None, s1) \<Rightarrow> (Inl (JsonInternalErrorException ''Client not found'' (req_id request)), s1)
                 | (Some c, s1) \<Rightarrow> (Inr (Some c), s1)))
      else (Inr None, s))"

text \<open>
  Lines 130 to 171: the chain over the method names. The result is the response and the
  local \<^verbatim>\<open>clientInfo\<close> after the assignment. The setters are reached only with a
  \<^verbatim>\<open>clientInfo\<close> that is not null, since their names start with \<^verbatim>\<open>Client.Set\<close>; the
  branch for the null pointer is there to make the function total.
\<close>

definition callMethod ::
  "stream_server \<Rightarrow> json_request \<Rightarrow> client_info option
     \<Rightarrow> (json_exception + json \<times> client_info option) \<times> stream_server" where
  "callMethod s request clientInfo =
     (if method request = ''System.GetStatus'' then
        (if hasParam request ''client''
         then (case getParam_string request ''client'' of
                 Inl e \<Rightarrow> (Inl e, s)
               | Inr mac \<Rightarrow>
                   (case getClientInfo mac False s of
                      (client, s1) \<Rightarrow>
                        (Inr (JObject
                           [(''server'', JObject [(''host'', JString (host s1)), (''version'', JString (VERSION s1))]),
                            (''clients'', JArray (case client of None \<Rightarrow> [] | Some c \<Rightarrow> [JClientInfo c]))],
                          clientInfo), s1)))
         else (Inr (JObject
                 [(''server'', JObject [(''host'', JString (host s)), (''version'', JString (VERSION s))]),
                  (''clients'', JArray (map JClientInfo (clients (config s))))],
                clientInfo), s))
      else if method request = ''Client.SetVolume'' then
        (case clientInfo of
           None \<Rightarrow> (Inl (std_exception ''null pointer''), s)
         | Some c \<Rightarrow>
             (case getParam_int request ''volume'' 0 100 of
                Inl e \<Rightarrow> (Inl e, s)
              | Inr v \<Rightarrow>
                  (let c1 = c\<lparr>volume := (volume c)\<lparr>percent := nat v\<rparr>\<rparr>
                   in (Inr (JInt (int (percent (volume c1))), Some c1), assign c1 s))))
      else if method request = ''Client.SetMute'' then
        (case clientInfo of
           None \<Rightarrow> (Inl (std_exception ''null pointer''), s)
         | Some c \<Rightarrow>
             (case getParam_bool request ''mute'' False True of
                Inl e \<Rightarrow> (Inl e, s)
              | Inr v \<Rightarrow>
                  (let c1 = c\<lparr>volume := (volume c)\<lparr>muted := v\<rparr>\<rparr>
                   in (Inr (JBool (muted (volume c1)), Some c1), assign c1 s))))
      else if method request = ''Client.SetLatency'' then
        (case clientInfo of
           None \<Rightarrow> (Inl (std_exception ''null pointer''), s)
         | Some c \<Rightarrow>
             (case getParam_int request ''latency'' (- 10000) (bufferMs s) of
                Inl e \<Rightarrow> (Inl e, s)
              | Inr v \<Rightarrow>
                  (let c1 = c\<lparr>latency := v\<rparr>
                   in (Inr (JInt (latency c1), Some c1), assign c1 s))))
      else if method request = ''Client.SetName'' then
        (case clientInfo of
           None \<Rightarrow> (Inl (std_exception ''null pointer''), s)
         | Some c \<Rightarrow>
             (case getParam_string request ''name'' of
                Inl e \<Rightarrow> (Inl e, s)
              | Inr v \<Rightarrow>
                  (let c1 = c\<lparr>name := v\<rparr>
                   in (Inr (JString (name c1), Some c1), assign c1 s))))
      else (Inl (JsonMethodNotFoundException (req_id request)), s))"

text \<open>
  Lines 173 to 186: with a \<^verbatim>\<open>clientInfo\<close> that is not null, the ServerSettings are
  filled from it and sent to the first session of the roster with the client's MAC, the
  config is saved and \<^verbatim>\<open>Client.OnUpdate\<close> is broadcast.
\<close>

definition pushUpdate ::
  "stream_server \<Rightarrow> json_request \<Rightarrow> client_info option \<Rightarrow> (json_exception + unit) \<times> stream_server" where
  "pushUpdate s request clientInfo =
     (case clientInfo of
        None \<Rightarrow> (Inr (), s)
      | Some c \<Rightarrow>
          (let serverSettings =
                 \<lparr>ss_refersTo = 0,
                  ss_bufferMs = bufferMs s,
                  ss_volume = percent (volume c),
                  ss_muted = muted (volume c),
                  ss_latency = latency c\<rparr>
           in case getParam_string request ''client'' of
                Inl e \<Rightarrow> (Inl e, s)
              | Inr mac \<Rightarrow>
                  (let s1 = (case getClientSession mac s of
                               None \<Rightarrow> s
                             | Some session \<Rightarrow> emit (Session_send session (ServerSettings serverSettings)) s);
                       s2 = save s1
                   in (Inr (), emit (Control_send (Notification ''Client.OnUpdate'' c)) s2))))"

text \<open>The body of the \<^verbatim>\<open>try\<close> block up to the response, an exception ending it.\<close>

definition tryBody ::
  "stream_server \<Rightarrow> json_request \<Rightarrow> (json_exception + json) \<times> stream_server" where
  "tryBody s request =
     (case lookupTarget s request of
        (Inl e, s1) \<Rightarrow> (Inl e, s1)
      | (Inr clientInfo, s1) \<Rightarrow>
          (case callMethod s1 request clientInfo of
             (Inl e, s2) \<Rightarrow> (Inl e, s2)
           | (Inr (resp, clientInfo'), s2) \<Rightarrow>
               (case pushUpdate s2 request clientInfo' of
                  (Inl e, s3) \<Rightarrow> (Inl e, s3)
                | (Inr u, s3) \<Rightarrow> (Inr resp, s3))))"

text \<open>
  The two \<^verbatim>\<open>catch\<close> clauses: a JsonRequestException is answered with its own error
  object, any other exception with an internal error that carries its \<^verbatim>\<open>what()\<close> and the
  id of the request.
\<close>

fun caught :: "json_exception \<Rightarrow> int \<Rightarrow> json_exception" where
  "caught (std_exception m) i = JsonInternalErrorException m i"
| "caught e i = e"

text \<open>
  \<^verbatim>\<open>onMessageReceived(ControlSession*, const std::string&)\<close> for a message that
  \<^verbatim>\<open>request.parse\<close> accepts; \<open>connection\<close> is the control session that sent it.
\<close>

definition onMessageReceived_control ::
  "stream_server \<Rightarrow> nat \<Rightarrow> json_request \<Rightarrow> stream_server" where
  "onMessageReceived_control s connection request =
     (case tryBody s request of
        (Inl e, s1) \<Rightarrow> emit (Reply connection (Error (caught e (req_id request)))) s1
      | (Inr resp, s1) \<Rightarrow> emit (Reply connection (Result resp (req_id request))) s1)"

subsection \<open>Reading a trace\<close>

text \<open>What \<^verbatim>\<open>send\<close> does for an inactive session \<open>p\<close> of the roster, in this order.\<close>

definition reaped :: "stream_server \<Rightarrow> nat \<Rightarrow> event list" where
  "reaped s p =
     [Thread_stop p, Control_send (Text (''Client gone: '' @ macAddress (heap s p))), Roster_erase p]"

text \<open>
  What \<^verbatim>\<open>getClientInfo(mac, true)\<close> obtains from a store: the record it returns, the
  records of the store afterwards, and the event of the creation when the store had none of
  that MAC.
\<close>

definition obtained :: "config \<Rightarrow> string \<Rightarrow> client_info" where
  "obtained cfg mac =
     (case findClientInfo mac (clients cfg) of Some c \<Rightarrow> c | None \<Rightarrow> newClientInfo cfg mac)"

definition obtained_store :: "config \<Rightarrow> string \<Rightarrow> client_info list" where
  "obtained_store cfg mac =
     (case findClientInfo mac (clients cfg) of
        Some c \<Rightarrow> clients cfg
      | None \<Rightarrow> clients cfg @ [newClientInfo cfg mac])"

definition obtained_events :: "config \<Rightarrow> string \<Rightarrow> event list" where
  "obtained_events cfg mac =
     (case findClientInfo mac (clients cfg) of Some c \<Rightarrow> [] | None \<Rightarrow> [ClientInfo_create mac])"

text \<open>The messages sent to the session \<open>p\<close>, in the order of a trace.\<close>

fun sent_to :: "nat \<Rightarrow> event list \<Rightarrow> message list" where
  "sent_to p [] = []"
| "sent_to p (Session_send q m # es) = (if q = p then m # sent_to p es else sent_to p es)"
| "sent_to p (e # es) = sent_to p es"

text \<open>The kind of request a message answers, and the id it refers to.\<close>

fun reply_of :: "message \<Rightarrow> (request_kind \<times> 16 word) option" where
  "reply_of (Time m) = Some (kTime, time_refersTo m)"
| "reply_of (ServerSettings m) = Some (kServerSettings, ss_refersTo m)"
| "reply_of (SampleFormat m) = Some (kSampleFormat, sf_refersTo m)"
| "reply_of (Header m) = Some (kHeader, hd_refersTo m)"
| "reply_of (Ack r) = None"
| "reply_of (PcmChunk c) = None"

text \<open>
  The table of the setters as the spec gives it (section 4.4.3), for the comparison with the
  dispatcher: the result and the changed ClientInfo of a request whose parameter is present
  and in range, for the record \<open>c\<close> of the target and the server's bufferMs.
\<close>

definition spec_mutation :: "int \<Rightarrow> json_request \<Rightarrow> client_info \<Rightarrow> (json \<times> client_info) option" where
  "spec_mutation bufMs request c =
     (if method request = ''Client.SetVolume'' then
        (case map_of (params request) ''volume'' of
           Some (JInt v) \<Rightarrow>
             if 0 \<le> v \<and> v \<le> 100
             then Some (JInt v, c\<lparr>volume := (volume c)\<lparr>percent := nat v\<rparr>\<rparr>)
             else None
         | _ \<Rightarrow> None)
      else if method request = ''Client.SetMute'' then
        (case map_of (params request) ''mute'' of
           Some (JBool b) \<Rightarrow> Some (JBool b, c\<lparr>volume := (volume c)\<lparr>muted := b\<rparr>\<rparr>)
         | _ \<Rightarrow> None)
      else if method request = ''Client.SetLatency'' then
        (case map_of (params request) ''latency'' of
           Some (JInt v) \<Rightarrow>
             if - 10000 \<le> v \<and> v \<le> bufMs then Some (JInt v, c\<lparr>latency := v\<rparr>) else None
         | _ \<Rightarrow> None)
      else if method request = ''Client.SetName'' then
        (case map_of (params request) ''name'' of
           Some (JString n) \<Rightarrow> Some (JString n, c\<lparr>name := n\<rparr>)
         | _ \<Rightarrow> None)
      else None)"

text \<open>The ServerSettings frame for the record \<open>c\<close>, sent to the session
  \<^verbatim>\<open>getClientSession(mac)\<close> finds, if it finds one.\<close>

definition pushed :: "stream_server \<Rightarrow> string \<Rightarrow> client_info \<Rightarrow> event list" where
  "pushed s mac c =
     (case getClientSession mac s of
        None \<Rightarrow> []
      | Some session \<Rightarrow>
          [Session_send session (ServerSettings
             \<lparr>ss_refersTo = 0, ss_bufferMs = bufferMs s, ss_volume = percent (volume c),
              ss_muted = muted (volume c), ss_latency = latency c\<rparr>)])"

text \<open>
  Of a trace: the ClientInfo of every \<^verbatim>\<open>Client.OnUpdate\<close> notification, the records of
  every save of the config, and every message sent to a session with the session.
\<close>

fun updates :: "event list \<Rightarrow> client_info list" where
  "updates [] = []"
| "updates (Control_send (Notification m c) # es) =
     (if m = ''Client.OnUpdate'' then c # updates es else updates es)"
| "updates (e # es) = updates es"

fun saves :: "event list \<Rightarrow> client_info list list" where
  "saves [] = []"
| "saves (Config_save cs # es) = cs # saves es"
| "saves (e # es) = saves es"

fun pushes :: "event list \<Rightarrow> (nat \<times> message) list" where
  "pushes [] = []"
| "pushes (Session_send p m # es) = (p, m) # pushes es"
| "pushes (e # es) = pushes es"

text \<open>The place of the first event of a kind in a trace (its length when there is none).\<close>

definition position :: "(event \<Rightarrow> bool) \<Rightarrow> event list \<Rightarrow> nat" where
  "position P es = length (takeWhile (\<lambda>e. \<not> P e) es)"

fun is_save :: "event \<Rightarrow> bool" where
  "is_save (Config_save cs) = True"
| "is_save e = False"

fun is_push :: "event \<Rightarrow> bool" where
  "is_push (Session_send p m) = True"
| "is_push e = False"

fun is_update :: "event \<Rightarrow> bool" where
  "is_update (Control_send (Notification m c)) = (m = ''Client.OnUpdate'')"
| "is_update e = False"

text \<open>
  The lock discipline of a trace: every change of the roster or of the ClientInfo store lies
  between a \<open>Lock\<close> and the \<open>Unlock\<close> that follows it. \<open>held\<close> says whether the lock
  is held where the trace starts.
\<close>

fun guarded :: "bool \<Rightarrow> event list \<Rightarrow> bool" where
  "guarded held [] = True"
| "guarded held (Lock # es) = guarded True es"
| "guarded held (Unlock # es) = guarded False es"
| "guarded held (Roster_insert p # es) = (held \<and> guarded held es)"
| "guarded held (Roster_erase p # es) = (held \<and> guarded held es)"
| "guarded held (ClientInfo_create m # es) = (held \<and> guarded held es)"
| "guarded held (ClientInfo_assign m # es) = (held \<and> guarded held es)"
| "guarded held (e # es) = guarded held es"

subsection \<open>A sample server\<close>

definition sample_blank :: client_info where
  "sample_blank =
     \<lparr>MAC = [], hostName = [], ipAddress = [], version = [], name = [],
      connected = False, lastSeen = \<lparr>tv_sec = 0, tv_usec = 0\<rparr>,
      volume = \<lparr>percent = 100, muted = False\<rparr>, latency = 0\<rparr>"

definition sample_client :: client_info where
  "sample_client =
     \<lparr>MAC = ''00:11:22:33:44:55'', hostName = ''pi'', ipAddress = ''10.0.0.5'', version = ''0.10'',
      name = ''kitchen'', connected = True, lastSeen = \<lparr>tv_sec = 90, tv_usec = 0\<rparr>,
      volume = \<lparr>percent = 80, muted = False\<rparr>, latency = 20\<rparr>"

text \<open>
  Three sessions in the roster: 1 has said Hello and is active, 2 is active and has not
  said Hello yet, 3 is no longer active.
\<close>

definition sample_heap :: "nat \<Rightarrow> client_session" where
  "sample_heap p =
     (if p = 1 then \<lparr>macAddress = ''00:11:22:33:44:55'', active = True, ip = ''10.0.0.5''\<rparr>
      else if p = 2 then \<lparr>macAddress = [], active = True, ip = ''10.0.0.6''\<rparr>
      else \<lparr>macAddress = ''00:11:22:33:44:66'', active = False, ip = ''10.0.0.7''\<rparr>)"

definition sample_server :: stream_server where
  "sample_server =
     \<lparr>sessions = [1, 2, 3],
      heap = sample_heap,
      config = \<lparr>clients = [sample_client], blank = sample_blank\<rparr>,
      bufferMs = 1000,
      sampleFormat = \<lparr>sf_refersTo = 0, sf_rate = 48000, sf_bits = 16, sf_channels = 2\<rparr>,
      pipeHeader = \<lparr>hd_refersTo = 0, hd_codec = ''ogg'', hd_payload = [79, 103, 103, 83]\<rparr>,
      host = ''server'',
      VERSION = ''0.4'',
      trace = []\<rparr>"

definition sample_chunk :: pcm_chunk where
  "sample_chunk = \<lparr>chunk_timestamp = \<lparr>sec = 100, usec = 0\<rparr>, chunk_payload = [1, 2, 3]\<rparr>"

text \<open>Requests of a control peer, a Hello of a new client, and a time of day.\<close>

definition volume_request :: json_request where
  "volume_request =
     \<lparr>method = ''Client.SetVolume'', req_id = 1,
      params = [(''client'', JString ''00:11:22:33:44:55''), (''volume'', JInt 42)]\<rparr>"

definition status_request :: json_request where
  "status_request = \<lparr>method = ''System.GetStatus'', req_id = 2, params = []\<rparr>"

definition mute_request :: json_request where
  "mute_request =
     \<lparr>method = ''Client.SetMute'', req_id = 3,
      params = [(''client'', JString ''aa:aa:aa:aa:aa:aa''), (''mute'', JBool True)]\<rparr>"

definition latency_request :: "int \<Rightarrow> json_request" where
  "latency_request v =
     \<lparr>method = ''Client.SetLatency'', req_id = 4,
      params = [(''client'', JString ''00:11:22:33:44:55''), (''latency'', JInt v)]\<rparr>"

definition sample_hello :: client_message where
  "sample_hello =
     Hello \<lparr>msg_id = 1, sent = \<lparr>sec = 100, usec = 0\<rparr>, received = \<lparr>sec = 100, usec = 40\<rparr>\<rparr>
       ''00:11:22:33:44:77'' ''pi2'' ''0.10''"

definition sample_now :: timeval where
  "sample_now = \<lparr>tv_sec = 100, tv_usec = 50\<rparr>"

section \<open>Properties\<close>

subsection \<open>Auxiliary facts\<close>

lemma emitted_append: "trace s' = trace s @ ev \<Longrightarrow> emitted s s' = ev"
  by (simp add: emitted_def)

lemma sint_diff_exact:
  fixes a b :: "32 word"
  assumes "- (2 ^ 31) \<le> sint a - sint b" and "sint a - sint b < 2 ^ 31"
  shows "sint (a - b) = sint a - sint b"
  using assms by (simp add: sint_word_ariths signed_take_bit_int_eq_self)

lemma round_to_even_error: "\<bar>of_int (round_to_even q) - q\<bar> \<le> 1 / 2"
  unfolding round_to_even_def by (auto; linarith)

lemma ulp_pos: "0 < ulp x"
  by (simp add: ulp_def)

lemma to_double_error: "\<bar>to_double x - x\<bar> \<le> ulp \<bar>x\<bar> / 2"
proof -
  have pos: "\<bar>of_int (round_to_even (y / ulp y)) * ulp y - y\<bar> \<le> ulp y / 2" for y :: real
  proof -
    have "of_int (round_to_even (y / ulp y)) * ulp y - y
            = (of_int (round_to_even (y / ulp y)) - y / ulp y) * ulp y"
      using ulp_pos [of y] by (simp add: field_simps)
    then have "\<bar>of_int (round_to_even (y / ulp y)) * ulp y - y\<bar>
            = \<bar>of_int (round_to_even (y / ulp y)) - y / ulp y\<bar> * ulp y"
      using ulp_pos [of y] by (simp add: abs_mult)
    also have "\<dots> \<le> (1 / 2) * ulp y"
      using round_to_even_error [of "y / ulp y"] ulp_pos [of y]
      by (intro mult_right_mono) simp_all
    finally show ?thesis by simp
  qed
  show ?thesis
  proof (cases "0 \<le> x")
    case True
    then show ?thesis using pos [of x] by (simp add: to_double_def)
  next
    case False
    then have "\<bar>to_double x - x\<bar> = \<bar>of_int (round_to_even (- x / ulp (- x))) * ulp (- x) - (- x)\<bar>"
      by (simp add: to_double_def)
    also have "\<dots> \<le> ulp (- x) / 2" using pos [of "- x"] by simp
    finally show ?thesis using False by simp
  qed
qed

lemma binade_up_less: "1 \<le> m \<Longrightarrow> x < 2 ^ m \<Longrightarrow> binade_up n x < int m"
proof (induction n arbitrary: x m)
  case 0
  then show ?case by simp
next
  case (Suc n)
  show ?case
  proof (cases "x < 2")
    case True
    then show ?thesis using Suc.prems by simp
  next
    case False
    have "2 \<le> m"
    proof (rule ccontr)
      assume "\<not> 2 \<le> m"
      with Suc.prems have "m = 1" by simp
      with Suc.prems False show False by simp
    qed
    then obtain k where k: "m = Suc k" "1 \<le> k" by (cases m) auto
    have "x / 2 < 2 ^ k" using Suc.prems k by simp
    from Suc.IH [OF k(2) this] show ?thesis using False k by simp
  qed
qed

lemma binade_down_le: "binade_down n x \<le> 0"
proof (induction n arbitrary: x)
  case 0
  then show ?case by simp
next
  case (Suc n)
  from Suc [of "2 * x"] show ?case by simp
qed

lemma binade_less: "1 \<le> m \<Longrightarrow> x < 2 ^ m \<Longrightarrow> binade x < int m"
  using binade_up_less [of m x 1023] binade_down_le [of 1022 x]
  by (auto simp: binade_def)

lemma ulp_le:
  assumes "1 \<le> m" and "m \<le> 52" and "x < 2 ^ m"
  shows "ulp x \<le> 1 / 2 ^ (53 - m)"
proof -
  have b: "binade x < int m" by (rule binade_less [OF assms(1,3)])
  then have n: "53 - m \<le> nat (52 - binade x)" using assms(2) by linarith
  have "ulp x = 1 / 2 ^ nat (52 - binade x)" using b assms(2) by (simp add: ulp_def)
  also have "\<dots> \<le> 1 / 2 ^ (53 - m)"
    using n by (simp add: frac_le power_increasing)
  finally show ?thesis .
qed

lemma latency_error:
  fixes i1 i2 :: int
  assumes "\<bar>i1\<bar> \<le> 2 ^ 31" and "\<bar>i2\<bar> \<le> 2 ^ 31"
  shows "\<bar>to_double (real_of_int i1 + to_double (real_of_int i2 / 1000000))
           - (real_of_int i1 + real_of_int i2 / 1000000)\<bar> \<le> 1 / 2 ^ 21"
proof -
  define y where "y = real_of_int i2 / 1000000"
  define z where "z = real_of_int i1 + to_double y"
  have a1: "\<bar>real_of_int i1\<bar> \<le> 2 ^ 31"
    using assms(1) by (metis of_int_abs of_int_le_iff of_int_numeral of_int_power)
  have a2: "\<bar>real_of_int i2\<bar> \<le> 2 ^ 31"
    using assms(2) by (metis of_int_abs of_int_le_iff of_int_numeral of_int_power)
  have y: "\<bar>y\<bar> < 2 ^ 12" using a2 by (simp add: y_def abs_if split: if_splits)
  have ey: "\<bar>to_double y - y\<bar> \<le> 1 / 2 ^ 42"
    using to_double_error [of y] ulp_le [of 12 "\<bar>y\<bar>"] y by simp
  have z: "\<bar>z\<bar> < 2 ^ 32" using a1 y ey by (simp add: z_def abs_if split: if_splits)
  have ez: "\<bar>to_double z - z\<bar> \<le> 1 / 2 ^ 22"
    using to_double_error [of z] ulp_le [of 32 "\<bar>z\<bar>"] z by simp
  have "\<bar>to_double z - (real_of_int i1 + y)\<bar> \<le> \<bar>to_double z - z\<bar> + \<bar>to_double y - y\<bar>"
    by (simp add: z_def)
  also have "\<dots> \<le> 1 / 2 ^ 22 + 1 / 2 ^ 42" using ey ez by simp
  also have "\<dots> \<le> 1 / 2 ^ 21" by simp
  finally show ?thesis by (simp add: z_def y_def)
qed

lemma sint32_abs: "\<bar>sint (w :: 32 word)\<bar> \<le> 2 ^ 31"
  using sint_ge [of w] sint_lt [of w] by simp

lemma addAll_eq: "addAll m ps s = s\<lparr>trace := trace s @ map (\<lambda>p. Session_add p m) ps\<rparr>"
  by (induction ps arbitrary: s) (simp_all add: emit_def)

lemma sweep_eq:
  "distinct (sessions s) \<Longrightarrow>
   sweep ps s = s\<lparr>sessions := filter (\<lambda>p. p \<notin> set ps \<or> active (heap s p)) (sessions s),
                  trace := trace s @ concat (map (reaped s) (filter (\<lambda>p. \<not> active (heap s p)) ps))\<rparr>"
proof (induction ps arbitrary: s)
  case Nil
  then show ?case by simp
next
  case (Cons it rest)
  show ?case
  proof (cases "active (heap s it)")
    case True
    then have "sweep (it # rest) s = sweep rest s" by simp
    also have "\<dots> = s\<lparr>sessions := filter (\<lambda>p. p \<notin> set rest \<or> active (heap s p)) (sessions s),
                  trace := trace s @ concat (map (reaped s) (filter (\<lambda>p. \<not> active (heap s p)) rest))\<rparr>"
      using Cons by simp
    also have "filter (\<lambda>p. p \<notin> set rest \<or> active (heap s p)) (sessions s)
             = filter (\<lambda>p. p \<notin> set (it # rest) \<or> active (heap s p)) (sessions s)"
      using True by (intro filter_cong) auto
    finally show ?thesis using True by simp
  next
    case False
    define s' where "s' = (s\<lparr>sessions := remove1 it (sessions s), trace := trace s @ reaped s it\<rparr>)"
    have "(emit (Roster_erase it)
               (emit (Control_send (Text (''Client gone: '' @ macAddress (heap s it))))
                 (emit (Thread_stop it) s)))\<lparr>sessions := remove1 it (sessions s)\<rparr> = s'"
      by (simp add: s'_def emit_def reaped_def)
    then have step: "sweep (it # rest) s = sweep rest s'"
      using False by (simp del: append.simps)
    have d: "distinct (sessions s')" using Cons.prems by (simp add: s'_def)
    have h: "heap s' = heap s" by (simp add: s'_def)
    have g: "reaped s' = reaped s" by (rule ext) (simp add: reaped_def h)
    have f: "filter (\<lambda>p. p \<notin> set rest \<or> active (heap s p)) (remove1 it (sessions s))
           = filter (\<lambda>p. p \<notin> set (it # rest) \<or> active (heap s p)) (sessions s)"
    proof -
      have "remove1 it (sessions s) = filter (\<lambda>p. p \<noteq> it) (sessions s)"
        using Cons.prems
        by (auto simp add: distinct_remove1_removeAll removeAll_filter_not_eq intro: filter_cong)
      then show ?thesis using False by (auto intro: filter_cong)
    qed
    have "sweep rest s' = s'\<lparr>sessions := filter (\<lambda>p. p \<notin> set rest \<or> active (heap s' p)) (sessions s'),
                  trace := trace s' @ concat (map (reaped s') (filter (\<lambda>p. \<not> active (heap s' p)) rest))\<rparr>"
      using Cons.IH [OF d] .
    then show ?thesis
      unfolding step g h using False f by (simp add: s'_def)
  qed
qed

lemma send_eq:
  assumes "distinct (sessions s)"
  shows "send s msg =
     s\<lparr>sessions := filter (\<lambda>p. active (heap s p)) (sessions s),
       trace := trace s @ [Lock]
         @ concat (map (reaped s) (filter (\<lambda>p. \<not> active (heap s p)) (sessions s)))
         @ map (\<lambda>p. Session_add p msg) (filter (\<lambda>p. active (heap s p)) (sessions s))
         @ [Unlock]\<rparr>"
proof -
  define s1 where "s1 = emit Lock s"
  have d: "distinct (sessions s1)" using assms by (simp add: s1_def emit_def)
  have f: "filter (\<lambda>p. p \<notin> set (sessions s) \<or> active (heap s p)) (sessions s)
         = filter (\<lambda>p. active (heap s p)) (sessions s)"
    by (intro filter_cong) auto
  have g: "reaped s1 = reaped s" by (rule ext) (simp add: reaped_def s1_def emit_def)
  show ?thesis
    unfolding send_def Let_def s1_def [symmetric]
    by (simp add: sweep_eq [OF d] addAll_eq g) (simp add: s1_def emit_def f cong: filter_cong)
qed

lemma count_reaped: "count_list (concat (map (reaped s) ps)) (Session_add q m) = 0"
  by (induction ps) (simp_all add: reaped_def)

lemma count_adds:
  "distinct ps \<Longrightarrow>
   count_list (map (\<lambda>p. Session_add p m) ps) (Session_add q m) = (if q \<in> set ps then 1 else 0)"
  by (induction ps) auto

lemma findClientInfo_MAC: "findClientInfo mac cs = Some c \<Longrightarrow> MAC c = mac"
  by (auto simp: findClientInfo_def find_Some_iff)

lemma find_put:
  "MAC c' = mac \<Longrightarrow> findClientInfo mac cs = Some c \<Longrightarrow> findClientInfo mac (putClientInfo c' cs) = Some c'"
  by (induction cs) (auto simp: findClientInfo_def split: if_splits)

lemma put_put: "MAC a = MAC b \<Longrightarrow> putClientInfo a (putClientInfo b cs) = putClientInfo a cs"
  by (induction cs) auto

lemma put_others:
  "MAC c' = mac \<Longrightarrow> filter (\<lambda>x. MAC x \<noteq> mac) (putClientInfo c' cs) = filter (\<lambda>x. MAC x \<noteq> mac) cs"
  by (induction cs) auto

lemma find_append_new:
  "findClientInfo mac cs = None \<Longrightarrow> findClientInfo mac (cs @ [n]) = (if MAC n = mac then Some n else None)"
  by (induction cs) (auto simp: findClientInfo_def split: if_splits)

lemma getClientInfo_create:
  "getClientInfo mac True s =
     (Some (obtained (config s) mac),
      s\<lparr>config := (config s)\<lparr>clients := obtained_store (config s) mac\<rparr>,
        trace := trace s @ obtained_events (config s) mac\<rparr>)"
  by (simp add: getClientInfo_def obtained_def obtained_store_def obtained_events_def emit_def
           split: option.splits)

lemma obtained_MAC: "MAC (obtained cfg mac) = mac"
  by (auto simp: obtained_def newClientInfo_def dest: findClientInfo_MAC split: option.splits)

lemma obtained_store_find: "findClientInfo mac (obtained_store cfg mac) = Some (obtained cfg mac)"
  by (auto simp: obtained_def obtained_store_def newClientInfo_def find_append_new split: option.splits)

lemma hello_eq:
  "onMessageReceived_client s connection (Hello helloMsg mac hostname vers) now =
     (let c5 = (obtained (config s) mac)\<lparr>ipAddress := ip (heap s connection), hostName := hostname,
                  version := vers, connected := True, lastSeen := now\<rparr>;
          cs5 = putClientInfo c5 (obtained_store (config s) mac)
      in s\<lparr>heap := (heap s)(connection := (heap s connection)\<lparr>macAddress := mac\<rparr>),
           config := (config s)\<lparr>clients := cs5\<rparr>,
           trace := trace s @ obtained_events (config s) mac @ replicate 5 (ClientInfo_assign mac)
                      @ [Config_save cs5, Control_send (Notification ''Client.OnConnect'' c5)]\<rparr>)"
  by (simp add: getClientInfo_create assign_def save_def emit_def Let_def put_put obtained_MAC
        numeral_eq_Suc)

lemma sent_to_append: "sent_to p (xs @ ys) = sent_to p xs @ sent_to p ys"
  by (induction p xs rule: sent_to.induct) simp_all

lemma sent_to_obtained: "sent_to p (obtained_events cfg mac) = []"
  by (simp add: obtained_events_def split: option.splits)

lemma settings_request_eq:
  "onMessageReceived_client s connection (Request requestMsg kServerSettings) now =
     (let mac = macAddress (heap s connection); c = obtained (config s) mac
      in s\<lparr>config := (config s)\<lparr>clients := obtained_store (config s) mac\<rparr>,
           trace := trace s @ [Lock] @ obtained_events (config s) mac
             @ [Session_send connection (ServerSettings
                  \<lparr>ss_refersTo = msg_id requestMsg, ss_bufferMs = bufferMs s,
                   ss_volume = percent (volume c), ss_muted = muted (volume c),
                   ss_latency = latency c\<rparr>), Unlock]\<rparr>)"
  by (simp add: getClientInfo_create emit_def Let_def)

lemma getClientInfo_lookup: "getClientInfo mac False s = (findClientInfo mac (clients (config s)), s)"
  by (simp add: getClientInfo_def split: option.splits)

lemma spec_mutation_method:
  "spec_mutation b r c = Some x \<Longrightarrow>
   method r \<in> {''Client.SetVolume'', ''Client.SetMute'', ''Client.SetLatency'', ''Client.SetName''}"
  by (simp add: spec_mutation_def split: if_splits)

lemma spec_mutation_MAC: "spec_mutation b r c = Some (res, c') \<Longrightarrow> MAC c' = MAC c"
  by (auto simp: spec_mutation_def split: if_splits option.splits json.splits)

lemma setter_prefix:
  "m \<in> {''Client.SetVolume'', ''Client.SetMute'', ''Client.SetLatency'', ''Client.SetName''}
   \<Longrightarrow> prefix ''Client.Set'' m"
  by auto

lemma lookupTarget_found:
  assumes "prefix ''Client.Set'' (method r)"
      and "getParam_string r ''client'' = Inr mac"
      and "findClientInfo mac (clients (config s)) = Some c"
  shows "lookupTarget s r = (Inr (Some c), s)"
  using assms by (simp add: lookupTarget_def getClientInfo_lookup)

lemma lookupTarget_null:
  "lookupTarget s r = (Inr None, s1) \<Longrightarrow> \<not> prefix ''Client.Set'' (method r)"
  by (auto simp: lookupTarget_def getClientInfo_lookup split: if_splits sum.splits option.splits)

lemma lookupTarget_missing:
  assumes "prefix ''Client.Set'' (method r)"
      and "getParam_string r ''client'' = Inr mac"
      and "findClientInfo mac (clients (config s)) = None"
  shows "lookupTarget s r = (Inl (JsonInternalErrorException ''Client not found'' (req_id r)), s)"
  using assms by (simp add: lookupTarget_def getClientInfo_lookup)

lemma callMethod_volume:
  assumes "method r = ''Client.SetVolume''" and "map_of (params r) ''volume'' = Some (JInt v)"
      and "0 \<le> v" and "v \<le> 100"
  shows "callMethod s r (Some c) =
           (Inr (JInt v, Some (c\<lparr>volume := (volume c)\<lparr>percent := nat v\<rparr>\<rparr>)),
            assign (c\<lparr>volume := (volume c)\<lparr>percent := nat v\<rparr>\<rparr>) s)"
  using assms by (simp add: callMethod_def getParam_int_def getParam_def Let_def)

lemma callMethod_mute:
  assumes "method r = ''Client.SetMute''" and "map_of (params r) ''mute'' = Some (JBool b)"
  shows "callMethod s r (Some c) =
           (Inr (JBool b, Some (c\<lparr>volume := (volume c)\<lparr>muted := b\<rparr>\<rparr>)),
            assign (c\<lparr>volume := (volume c)\<lparr>muted := b\<rparr>\<rparr>) s)"
  using assms by (simp add: callMethod_def getParam_bool_def getParam_def Let_def)

lemma callMethod_latency:
  assumes "method r = ''Client.SetLatency''" and "map_of (params r) ''latency'' = Some (JInt v)"
      and "- 10000 \<le> v" and "v \<le> bufferMs s"
  shows "callMethod s r (Some c) =
           (Inr (JInt v, Some (c\<lparr>latency := v\<rparr>)), assign (c\<lparr>latency := v\<rparr>) s)"
  using assms by (simp add: callMethod_def getParam_int_def getParam_def Let_def)

lemma callMethod_latency_range:
  assumes "method r = ''Client.SetLatency''" and "map_of (params r) ''latency'' = Some (JInt v)"
      and "v < - 10000 \<or> bufferMs s < v"
  shows "callMethod s r (Some c) = (Inl (JsonInvalidParamsException (req_id r)), s)"
  using assms by (auto simp add: callMethod_def getParam_int_def getParam_def)

lemma callMethod_name:
  assumes "method r = ''Client.SetName''" and "map_of (params r) ''name'' = Some (JString n)"
  shows "callMethod s r (Some c) =
           (Inr (JString n, Some (c\<lparr>name := n\<rparr>)), assign (c\<lparr>name := n\<rparr>) s)"
  using assms by (simp add: callMethod_def getParam_string_def getParam_def Let_def)

lemma callMethod_spec:
  assumes "spec_mutation (bufferMs s) r c = Some (res, c')"
  shows "callMethod s r (Some c) = (Inr (res, Some c'), assign c' s)"
proof -
  consider (vol) "method r = ''Client.SetVolume''" | (mute) "method r = ''Client.SetMute''"
    | (lat) "method r = ''Client.SetLatency''" | (nam) "method r = ''Client.SetName''"
    using spec_mutation_method [OF assms] by auto
  then show ?thesis
  proof cases
    case vol
    with assms obtain v where "map_of (params r) ''volume'' = Some (JInt v)" "0 \<le> v" "v \<le> 100"
      "res = JInt v" "c' = c\<lparr>volume := (volume c)\<lparr>percent := nat v\<rparr>\<rparr>"
      by (auto simp: spec_mutation_def split: option.splits json.splits if_splits)
    then show ?thesis using callMethod_volume [OF vol] by simp
  next
    case mute
    with assms obtain b where "map_of (params r) ''mute'' = Some (JBool b)"
      "res = JBool b" "c' = c\<lparr>volume := (volume c)\<lparr>muted := b\<rparr>\<rparr>"
      by (auto simp: spec_mutation_def split: option.splits json.splits if_splits)
    then show ?thesis using callMethod_mute [OF mute] by simp
  next
    case lat
    with assms obtain v where "map_of (params r) ''latency'' = Some (JInt v)" "- 10000 \<le> v" "v \<le> bufferMs s"
      "res = JInt v" "c' = c\<lparr>latency := v\<rparr>"
      by (auto simp: spec_mutation_def split: option.splits json.splits if_splits)
    then show ?thesis using callMethod_latency [OF lat] by simp
  next
    case nam
    with assms obtain n where "map_of (params r) ''name'' = Some (JString n)"
      "res = JString n" "c' = c\<lparr>name := n\<rparr>"
      by (auto simp: spec_mutation_def split: option.splits json.splits if_splits)
    then show ?thesis using callMethod_name [OF nam] by simp
  qed
qed

lemma pushUpdate_some:
  assumes "getParam_string r ''client'' = Inr mac"
  shows "pushUpdate s r (Some c) =
           (Inr (), s\<lparr>trace := trace s @ pushed s mac c
                        @ [Config_save (clients (config s)), Control_send (Notification ''Client.OnUpdate'' c)]\<rparr>)"
  using assms
  by (simp add: pushUpdate_def pushed_def save_def emit_def Let_def split: option.splits)

lemma pushed_assign: "pushed (assign c s) mac c' = pushed s mac c'"
  by (simp add: pushed_def assign_def emit_def getClientSession_def split: option.splits)

lemma setter_eq:
  assumes "getParam_string r ''client'' = Inr mac"
      and "findClientInfo mac (clients (config s)) = Some c"
      and "spec_mutation (bufferMs s) r c = Some (res, c')"
  shows "onMessageReceived_control s connection r =
           s\<lparr>config := (config s)\<lparr>clients := putClientInfo c' (clients (config s))\<rparr>,
             trace := trace s @ [ClientInfo_assign mac] @ pushed s mac c'
               @ [Config_save (putClientInfo c' (clients (config s))),
                  Control_send (Notification ''Client.OnUpdate'' c'),
                  Reply connection (Result res (req_id r))]\<rparr>"
proof -
  have p: "prefix ''Client.Set'' (method r)"
    by (rule setter_prefix [OF spec_mutation_method [OF assms(3)]])
  have m: "MAC c' = mac"
    using spec_mutation_MAC [OF assms(3)] findClientInfo_MAC [OF assms(2)] by simp
  have "tryBody s r =
          (Inr res, (assign c' s)\<lparr>trace := trace (assign c' s) @ pushed s mac c'
              @ [Config_save (clients (config (assign c' s))), Control_send (Notification ''Client.OnUpdate'' c')]\<rparr>)"
    by (simp add: tryBody_def lookupTarget_found [OF p assms(1,2)] callMethod_spec [OF assms(3)]
          pushUpdate_some [OF assms(1)] pushed_assign)
  then show ?thesis
    by (simp add: onMessageReceived_control_def assign_def emit_def m)
qed

lemma other_method_eq:
  assumes "method r \<notin> {''Client.SetVolume'', ''Client.SetMute'', ''Client.SetLatency'', ''Client.SetName''}"
  shows "\<exists>resp. onMessageReceived_control s connection r = s\<lparr>trace := trace s @ [Reply connection resp]\<rparr>"
proof (cases "method r = ''System.GetStatus''")
  case True
  then have l: "lookupTarget s r = (Inr None, s)" by (simp add: lookupTarget_def)
  have "\<exists>x. callMethod s r None = (x, s) \<and> (\<forall>resp ci. x = Inr (resp, ci) \<longrightarrow> ci = None)"
    using True by (auto simp: callMethod_def getClientInfo_lookup split: sum.splits)
  then obtain x where x: "callMethod s r None = (x, s)" "\<And>resp ci. x = Inr (resp, ci) \<Longrightarrow> ci = None"
    by blast
  show ?thesis
  proof (cases x)
    case (Inl e)
    then show ?thesis
      by (auto simp add: onMessageReceived_control_def tryBody_def l x(1) emit_def)
  next
    case (Inr y)
    obtain resp ci where y: "y = (resp, ci)" by (cases y)
    with Inr x(2) have "ci = None" by simp
    then show ?thesis
      by (auto simp add: onMessageReceived_control_def tryBody_def l x(1) Inr y pushUpdate_def emit_def)
  qed
next
  case False
  have c: "callMethod s' r ci = (Inl (JsonMethodNotFoundException (req_id r)), s')" for s' ci
    using False assms by (simp add: callMethod_def)
  have "\<exists>x. lookupTarget s r = (x, s)"
    by (auto simp: lookupTarget_def getClientInfo_lookup split: sum.splits option.splits)
  then obtain x where x: "lookupTarget s r = (x, s)" by blast
  show ?thesis
    by (cases x) (auto simp add: onMessageReceived_control_def tryBody_def x c emit_def)
qed

lemma pushes_append: "pushes (xs @ ys) = pushes xs @ pushes ys"
  by (induction xs rule: pushes.induct) simp_all

lemma updates_append: "updates (xs @ ys) = updates xs @ updates ys"
  by (induction xs rule: updates.induct) simp_all

lemma saves_append: "saves (xs @ ys) = saves xs @ saves ys"
  by (induction xs rule: saves.induct) simp_all

lemma read_pushed:
  "updates (pushed s mac c) = []" "saves (pushed s mac c) = []"
  "pushes (pushed s mac c) =
     (case getClientSession mac s of
        None \<Rightarrow> []
      | Some p \<Rightarrow> [(p, ServerSettings \<lparr>ss_refersTo = 0, ss_bufferMs = bufferMs s,
           ss_volume = percent (volume c), ss_muted = muted (volume c), ss_latency = latency c\<rparr>)])"
  by (simp_all add: pushed_def split: option.splits)

lemma getClientSession_Some:
  "getClientSession mac s = Some p \<Longrightarrow> p \<in> set (sessions s) \<and> macAddress (heap s p) = mac"
  by (auto simp: getClientSession_def find_Some_iff)

lemma getClientSession_None:
  "getClientSession mac s = None \<Longrightarrow> \<forall>p \<in> set (sessions s). macAddress (heap s p) \<noteq> mac"
  by (auto simp: getClientSession_def find_None_iff)

lemma sample_facts:
  "clients (config sample_server) = [sample_client]"
  "bufferMs sample_server = 1000"
  "trace sample_server = []"
  "findClientInfo ''00:11:22:33:44:55'' [sample_client] = Some sample_client"
  "findClientInfo ''aa:aa:aa:aa:aa:aa'' [sample_client] = None"
  "getClientSession ''00:11:22:33:44:55'' sample_server = Some 1"
  by (simp_all add: sample_server_def sample_client_def findClientInfo_def getClientSession_def
        sample_heap_def)

lemma sample_requests:
  "getParam_string volume_request ''client'' = Inr ''00:11:22:33:44:55''"
  "getParam_string mute_request ''client'' = Inr ''aa:aa:aa:aa:aa:aa''"
  "getParam_string (latency_request v) ''client'' = Inr ''00:11:22:33:44:55''"
  "spec_mutation 1000 volume_request sample_client
     = Some (JInt 42, sample_client\<lparr>volume := \<lparr>percent = 42, muted = False\<rparr>\<rparr>)"
  "method status_request \<notin> {''Client.SetVolume'', ''Client.SetMute'', ''Client.SetLatency'', ''Client.SetName''}"
  by (simp_all add: volume_request_def mute_request_def latency_request_def status_request_def
        getParam_string_def getParam_def spec_mutation_def sample_client_def)

lemma position_Cons: "position P (e # es) = (if P e then 0 else Suc (position P es))"
  by (simp add: position_def)

lemma position_Nil: "position P [] = 0"
  by (simp add: position_def)

subsection \<open>The fan-out of a chunk\<close>

text \<open>
  C1. A broadcast of a chunk (\<^verbatim>\<open>onChunkRead\<close>, which calls \<^verbatim>\<open>send\<close>) on a roster without
  repeated pointers leaves exactly the active sessions in the roster. Between taking and
  releasing the lock it first, for every inactive session of the roster, starts the detached
  thread that stops it, sends \<^verbatim>\<open>Client gone: <mac>\<close> to the control peers and erases
  it; then it calls \<^verbatim>\<open>add\<close> with the one chunk on every remaining session. So
  \<^verbatim>\<open>add\<close> is called exactly once on every session that was active and not at all on
  any other, and every call carries the same chunk.
\<close>

theorem fan_out_reaps_then_adds:
  assumes "distinct (sessions s)"
  shows "onChunkRead s chunk =
           s\<lparr>sessions := filter (\<lambda>p. active (heap s p)) (sessions s),
             trace := trace s @ [Lock]
               @ concat (map (reaped s) (filter (\<lambda>p. \<not> active (heap s p)) (sessions s)))
               @ map (\<lambda>p. Session_add p (PcmChunk chunk)) (filter (\<lambda>p. active (heap s p)) (sessions s))
               @ [Unlock]\<rparr>
         \<and> (\<forall>p. count_list (emitted s (onChunkRead s chunk)) (Session_add p (PcmChunk chunk))
                  = (if p \<in> set (sessions s) \<and> active (heap s p) then 1 else 0))
         \<and> (\<forall>p m. Session_add p m \<in> set (emitted s (onChunkRead s chunk)) \<longrightarrow> m = PcmChunk chunk)"
proof -
  let ?gone = "concat (map (reaped s) (filter (\<lambda>p. \<not> active (heap s p)) (sessions s)))"
  let ?keep = "filter (\<lambda>p. active (heap s p)) (sessions s)"
  let ?ev = "[Lock] @ ?gone @ map (\<lambda>p. Session_add p (PcmChunk chunk)) ?keep @ [Unlock]"
  have eq: "onChunkRead s chunk = s\<lparr>sessions := ?keep, trace := trace s @ ?ev\<rparr>"
    unfolding onChunkRead_def by (rule send_eq [OF assms])
  have em: "emitted s (onChunkRead s chunk) = ?ev"
    by (rule emitted_append) (simp add: eq)
  have dk: "distinct ?keep" using assms by simp
  have cnt: "count_list ?ev (Session_add p (PcmChunk chunk))
               = (if p \<in> set (sessions s) \<and> active (heap s p) then 1 else 0)" for p
    by (simp add: count_reaped count_adds [OF dk])
  have same: "m = PcmChunk chunk" if "Session_add p m \<in> set ?ev" for p m
    using that by (auto simp: reaped_def)
  show ?thesis using eq cnt same unfolding em by blast
qed

theorem fan_out_reaps_then_adds_witness:
  "distinct (sessions sample_server)
   \<and> sessions (onChunkRead sample_server sample_chunk) = [1, 2]
   \<and> trace (onChunkRead sample_server sample_chunk) =
       [Lock, Thread_stop 3, Control_send (Text ''Client gone: 00:11:22:33:44:66''), Roster_erase 3,
        Session_add 1 (PcmChunk sample_chunk), Session_add 2 (PcmChunk sample_chunk), Unlock]"
proof -
  have d: "distinct (sessions sample_server)" by (simp add: sample_server_def)
  note eq = fan_out_reaps_then_adds [OF d, of sample_chunk, THEN conjunct1]
  have keep: "filter (\<lambda>p. active (heap sample_server p)) (sessions sample_server) = [1, 2]"
    by (simp add: sample_server_def sample_heap_def)
  have gone: "filter (\<lambda>p. \<not> active (heap sample_server p)) (sessions sample_server) = [3]"
    by (simp add: sample_server_def sample_heap_def)
  have mac: "macAddress (heap sample_server 3) = ''00:11:22:33:44:66''"
    by (simp add: sample_server_def sample_heap_def)
  have tr: "trace sample_server = []" by (simp add: sample_server_def)
  show ?thesis
    unfolding eq keep gone using d by (simp add: reaped_def mac tr)
qed

subsection \<open>The setters of the JSON-RPC dispatcher\<close>

text \<open>
  C2. A request that is a successful setter (its method is one of \<^verbatim>\<open>Client.SetVolume\<close>,
  \<^verbatim>\<open>Client.SetMute\<close>, \<^verbatim>\<open>Client.SetLatency\<close>, \<^verbatim>\<open>Client.SetName\<close>, its client exists and
  its parameter is in range, which is what \<open>spec_mutation\<close> says) broadcasts exactly one
  \<^verbatim>\<open>Client.OnUpdate\<close>, which carries the ClientInfo as it now stands in the store; the
  config is saved once, with that record; one ServerSettings frame with the new volume, mute
  and latency goes to the first session of the roster with the client's MAC, and none is sent
  when the roster has no such session; the caller gets the result. A request with any other
  method broadcasts no \<^verbatim>\<open>Client.OnUpdate\<close>.
\<close>

theorem setter_notifies_once:
  assumes "getParam_string r ''client'' = Inr mac"
      and "findClientInfo mac (clients (config s)) = Some c"
      and "spec_mutation (bufferMs s) r c = Some (res, c')"
  shows "(let s' = onMessageReceived_control s connection r
          in updates (emitted s s') = [c']
             \<and> findClientInfo mac (clients (config s')) = Some c'
             \<and> saves (emitted s s') = [clients (config s')]
             \<and> pushes (emitted s s') =
                 (case getClientSession mac s of
                    None \<Rightarrow> []
                  | Some p \<Rightarrow> [(p, ServerSettings \<lparr>ss_refersTo = 0, ss_bufferMs = bufferMs s,
                       ss_volume = percent (volume c'), ss_muted = muted (volume c'),
                       ss_latency = latency c'\<rparr>)])
             \<and> (case getClientSession mac s of
                    None \<Rightarrow> \<forall>p \<in> set (sessions s). macAddress (heap s p) \<noteq> mac
                  | Some p \<Rightarrow> p \<in> set (sessions s) \<and> macAddress (heap s p) = mac)
             \<and> last (trace s') = Reply connection (Result res (req_id r)))
         \<and> (\<forall>q. method q \<notin> {''Client.SetVolume'', ''Client.SetMute'', ''Client.SetLatency'', ''Client.SetName''}
                \<longrightarrow> updates (emitted s (onMessageReceived_control s connection q)) = [])"
proof -
  have m: "MAC c' = mac"
    using spec_mutation_MAC [OF assms(3)] findClientInfo_MAC [OF assms(2)] by simp
  have f: "findClientInfo mac (putClientInfo c' (clients (config s))) = Some c'"
    by (rule find_put [OF m assms(2)])
  have g: "(case getClientSession mac s of
                    None \<Rightarrow> \<forall>p \<in> set (sessions s). macAddress (heap s p) \<noteq> mac
                  | Some p \<Rightarrow> p \<in> set (sessions s) \<and> macAddress (heap s p) = mac)"
    using getClientSession_Some [of mac s] getClientSession_None [of mac s]
    by (simp split: option.splits)
  have first: "(let s' = onMessageReceived_control s connection r
          in updates (emitted s s') = [c']
             \<and> findClientInfo mac (clients (config s')) = Some c'
             \<and> saves (emitted s s') = [clients (config s')]
             \<and> pushes (emitted s s') =
                 (case getClientSession mac s of
                    None \<Rightarrow> []
                  | Some p \<Rightarrow> [(p, ServerSettings \<lparr>ss_refersTo = 0, ss_bufferMs = bufferMs s,
                       ss_volume = percent (volume c'), ss_muted = muted (volume c'),
                       ss_latency = latency c'\<rparr>)])
             \<and> (case getClientSession mac s of
                    None \<Rightarrow> \<forall>p \<in> set (sessions s). macAddress (heap s p) \<noteq> mac
                  | Some p \<Rightarrow> p \<in> set (sessions s) \<and> macAddress (heap s p) = mac)
             \<and> last (trace s') = Reply connection (Result res (req_id r)))"
    unfolding Let_def setter_eq [OF assms]
    using f g
    by (simp add: emitted_def updates_append saves_append pushes_append read_pushed)
  have second: "updates (emitted s (onMessageReceived_control s connection q)) = []"
    if "method q \<notin> {''Client.SetVolume'', ''Client.SetMute'', ''Client.SetLatency'', ''Client.SetName''}" for q
  proof -
    from other_method_eq [OF that] obtain resp where
      "onMessageReceived_control s connection q = s\<lparr>trace := trace s @ [Reply connection resp]\<rparr>"
      by blast
    then show ?thesis by (simp add: emitted_def)
  qed
  show ?thesis using first second by blast
qed

theorem setter_notifies_once_witness:
  "getParam_string volume_request ''client'' = Inr ''00:11:22:33:44:55''
   \<and> findClientInfo ''00:11:22:33:44:55'' (clients (config sample_server)) = Some sample_client
   \<and> spec_mutation (bufferMs sample_server) volume_request sample_client
       = Some (JInt 42, sample_client\<lparr>volume := \<lparr>percent = 42, muted = False\<rparr>\<rparr>)
   \<and> updates (emitted sample_server (onMessageReceived_control sample_server 9 volume_request))
       = [sample_client\<lparr>volume := \<lparr>percent = 42, muted = False\<rparr>\<rparr>]
   \<and> pushes (emitted sample_server (onMessageReceived_control sample_server 9 volume_request))
       = [(1, ServerSettings \<lparr>ss_refersTo = 0, ss_bufferMs = 1000, ss_volume = 42,
                              ss_muted = False, ss_latency = 20\<rparr>)]
   \<and> updates (emitted sample_server (onMessageReceived_control sample_server 9 status_request)) = []"
proof -
  have a: "getParam_string volume_request ''client'' = Inr ''00:11:22:33:44:55''"
    by (rule sample_requests)
  have b: "findClientInfo ''00:11:22:33:44:55'' (clients (config sample_server)) = Some sample_client"
    by (simp add: sample_facts)
  have c: "spec_mutation (bufferMs sample_server) volume_request sample_client
       = Some (JInt 42, sample_client\<lparr>volume := \<lparr>percent = 42, muted = False\<rparr>\<rparr>)"
    by (simp add: sample_facts sample_requests)
  note th = setter_notifies_once [OF a b c, of 9, unfolded Let_def]
  have u: "updates (emitted sample_server (onMessageReceived_control sample_server 9 volume_request))
       = [sample_client\<lparr>volume := \<lparr>percent = 42, muted = False\<rparr>\<rparr>]"
    using th by blast
  have p: "pushes (emitted sample_server (onMessageReceived_control sample_server 9 volume_request))
       = [(1, ServerSettings \<lparr>ss_refersTo = 0, ss_bufferMs = 1000, ss_volume = 42,
                              ss_muted = False, ss_latency = 20\<rparr>)]"
    using th by (simp add: sample_facts sample_client_def)
  have q: "updates (emitted sample_server (onMessageReceived_control sample_server 9 status_request)) = []"
    using th sample_requests(5) by blast
  show ?thesis using a b c u p q by blast
qed

text \<open>
  C3. \<^verbatim>\<open>Client.SetLatency\<close> on an existing client with a latency v. Outside of
  [-10000, bufferMs] the caller gets the error of invalid params, whose code is -32602, and
  the state is as before but for that reply: no record changes, no ServerSettings frame and
  no notification are sent. Inside the range the record of the client holds the latency v
  afterwards, v is the result, and the stored latency is at most bufferMs.
\<close>

theorem latency_range_checked:
  assumes "method r = ''Client.SetLatency''"
      and "getParam_string r ''client'' = Inr mac"
      and "findClientInfo mac (clients (config s)) = Some c"
      and "map_of (params r) ''latency'' = Some (JInt v)"
  shows "(v < - 10000 \<or> bufferMs s < v \<longrightarrow>
            onMessageReceived_control s connection r =
              s\<lparr>trace := trace s @ [Reply connection (Error (JsonInvalidParamsException (req_id r)))]\<rparr>
            \<and> error_code (JsonInvalidParamsException (req_id r)) = - 32602)
         \<and> (- 10000 \<le> v \<and> v \<le> bufferMs s \<longrightarrow>
              (let s' = onMessageReceived_control s connection r
               in findClientInfo mac (clients (config s')) = Some (c\<lparr>latency := v\<rparr>)
                  \<and> last (trace s') = Reply connection (Result (JInt v) (req_id r))
                  \<and> latency (c\<lparr>latency := v\<rparr>) \<le> bufferMs s'))"
proof -
  have p: "prefix ''Client.Set'' (method r)" using assms(1) by simp
  have out: "onMessageReceived_control s connection r =
              s\<lparr>trace := trace s @ [Reply connection (Error (JsonInvalidParamsException (req_id r)))]\<rparr>"
    if "v < - 10000 \<or> bufferMs s < v"
    by (simp add: onMessageReceived_control_def tryBody_def lookupTarget_found [OF p assms(2,3)]
          callMethod_latency_range [OF assms(1,4) that] emit_def)
  have inside: "(let s' = onMessageReceived_control s connection r
               in findClientInfo mac (clients (config s')) = Some (c\<lparr>latency := v\<rparr>)
                  \<and> last (trace s') = Reply connection (Result (JInt v) (req_id r))
                  \<and> latency (c\<lparr>latency := v\<rparr>) \<le> bufferMs s')"
    if "- 10000 \<le> v \<and> v \<le> bufferMs s"
  proof -
    have sm: "spec_mutation (bufferMs s) r c = Some (JInt v, c\<lparr>latency := v\<rparr>)"
      using assms(1,4) that by (simp add: spec_mutation_def)
    have m: "MAC (c\<lparr>latency := v\<rparr>) = mac" using findClientInfo_MAC [OF assms(3)] by simp
    show ?thesis
      unfolding Let_def setter_eq [OF assms(2,3) sm]
      using find_put [OF m assms(3)] that by simp
  qed
  show ?thesis using out inside by simp
qed

theorem latency_range_checked_witness:
  "method (latency_request 1001) = ''Client.SetLatency''
   \<and> getParam_string (latency_request 1001) ''client'' = Inr ''00:11:22:33:44:55''
   \<and> findClientInfo ''00:11:22:33:44:55'' (clients (config sample_server)) = Some sample_client
   \<and> map_of (params (latency_request 1001)) ''latency'' = Some (JInt 1001)
   \<and> onMessageReceived_control sample_server 9 (latency_request 1001) =
       sample_server\<lparr>trace := [Reply 9 (Error (JsonInvalidParamsException 4))]\<rparr>
   \<and> findClientInfo ''00:11:22:33:44:55''
        (clients (config (onMessageReceived_control sample_server 9 (latency_request 50))))
       = Some (sample_client\<lparr>latency := 50\<rparr>)
   \<and> last (trace (onMessageReceived_control sample_server 9 (latency_request 50)))
       = Reply 9 (Result (JInt 50) 4)"
proof -
  have a: "method (latency_request v) = ''Client.SetLatency''" for v
    by (simp add: latency_request_def)
  have b: "getParam_string (latency_request v) ''client'' = Inr ''00:11:22:33:44:55''" for v
    by (rule sample_requests)
  have c: "findClientInfo ''00:11:22:33:44:55'' (clients (config sample_server)) = Some sample_client"
    by (simp add: sample_facts)
  have d: "map_of (params (latency_request v)) ''latency'' = Some (JInt v)" for v
    by (simp add: latency_request_def)
  have i: "req_id (latency_request v) = 4" for v by (simp add: latency_request_def)
  note hi = latency_range_checked [OF a b c d, of 1001 9, THEN conjunct1, rule_format]
  note lo = latency_range_checked [OF a b c d, of 50 9, THEN conjunct2, rule_format, unfolded Let_def]
  have x: "onMessageReceived_control sample_server 9 (latency_request 1001) =
       sample_server\<lparr>trace := [Reply 9 (Error (JsonInvalidParamsException 4))]\<rparr>"
    using hi by (simp add: sample_facts i)
  have y: "findClientInfo ''00:11:22:33:44:55''
        (clients (config (onMessageReceived_control sample_server 9 (latency_request 50))))
       = Some (sample_client\<lparr>latency := 50\<rparr>)
     \<and> last (trace (onMessageReceived_control sample_server 9 (latency_request 50)))
       = Reply 9 (Result (JInt 50) 4)"
    using lo by (simp add: sample_facts i)
  show ?thesis using a b c d x y by blast
qed

text \<open>
  C4. A request whose method starts with \<^verbatim>\<open>Client.Set\<close> and whose client is a MAC without
  a ClientInfo is answered with the internal error (code -32603) with the message
  \<^verbatim>\<open>Client not found\<close> and the id of the request. The state is as before but for that
  reply: no ClientInfo is created, nothing changes, nothing is broadcast.
\<close>

theorem unknown_client_rejected:
  assumes "prefix ''Client.Set'' (method r)"
      and "getParam_string r ''client'' = Inr mac"
      and "findClientInfo mac (clients (config s)) = None"
  shows "onMessageReceived_control s connection r =
           s\<lparr>trace := trace s @ [Reply connection
                 (Error (JsonInternalErrorException ''Client not found'' (req_id r)))]\<rparr>
         \<and> error_code (JsonInternalErrorException ''Client not found'' (req_id r)) = - 32603"
  by (simp add: onMessageReceived_control_def tryBody_def lookupTarget_missing [OF assms] emit_def)

theorem unknown_client_rejected_witness:
  "prefix ''Client.Set'' (method mute_request)
   \<and> getParam_string mute_request ''client'' = Inr ''aa:aa:aa:aa:aa:aa''
   \<and> findClientInfo ''aa:aa:aa:aa:aa:aa'' (clients (config sample_server)) = None
   \<and> onMessageReceived_control sample_server 9 mute_request =
       sample_server\<lparr>trace := [Reply 9 (Error (JsonInternalErrorException ''Client not found'' 3))]\<rparr>"
proof -
  have a: "prefix ''Client.Set'' (method mute_request)" by (simp add: mute_request_def)
  have b: "getParam_string mute_request ''client'' = Inr ''aa:aa:aa:aa:aa:aa''"
    by (rule sample_requests)
  have c: "findClientInfo ''aa:aa:aa:aa:aa:aa'' (clients (config sample_server)) = None"
    by (simp add: sample_facts)
  have i: "req_id mute_request = 3" by (simp add: mute_request_def)
  show ?thesis
    using a b c unknown_client_rejected [OF a b c, of 9] by (simp add: sample_facts i)
qed

subsection \<open>The time request\<close>

text \<open>
  C5. A Request of kind Time is answered, on the session it came from, with one Time message
  whose refersTo is the id of the request and whose latency is
  (received.sec - sent.sec) + (received.usec - sent.usec) / 1000000 as line 214 computes it
  from the time stamps of the request itself: the differences as 32-bit signed integers, the
  quotient and the sum in double arithmetic, each rounded to the nearest double. Nothing else
  of the state changes. The double that is sent lies within 2^-21 seconds of the exact value
  of that expression, and whenever the two differences fit into 32 bits they are the
  differences of the integers.
\<close>

theorem time_request_reply:
  "onMessageReceived_client s connection (Request requestMsg kTime) now =
     s\<lparr>trace := trace s @ [Session_send connection (Time
        \<lparr>time_refersTo = msg_id requestMsg,
         time_latency =
           to_double
             (real_of_int (sint (sec (received requestMsg) - sec (sent requestMsg)))
              + to_double
                  (real_of_int (sint (usec (received requestMsg) - usec (sent requestMsg)))
                   / 1000000))\<rparr>)]\<rparr>
   \<and> \<bar>to_double
         (real_of_int (sint (sec (received requestMsg) - sec (sent requestMsg)))
          + to_double
              (real_of_int (sint (usec (received requestMsg) - usec (sent requestMsg)))
               / 1000000))
       - (real_of_int (sint (sec (received requestMsg) - sec (sent requestMsg)))
          + real_of_int (sint (usec (received requestMsg) - usec (sent requestMsg))) / 1000000)\<bar>
     \<le> 1 / 2 ^ 21
   \<and> (- (2 ^ 31) \<le> sint (sec (received requestMsg)) - sint (sec (sent requestMsg))
        \<and> sint (sec (received requestMsg)) - sint (sec (sent requestMsg)) < 2 ^ 31
        \<and> - (2 ^ 31) \<le> sint (usec (received requestMsg)) - sint (usec (sent requestMsg))
        \<and> sint (usec (received requestMsg)) - sint (usec (sent requestMsg)) < 2 ^ 31
      \<longrightarrow> sint (sec (received requestMsg) - sec (sent requestMsg))
            = sint (sec (received requestMsg)) - sint (sec (sent requestMsg))
          \<and> sint (usec (received requestMsg) - usec (sent requestMsg))
            = sint (usec (received requestMsg)) - sint (usec (sent requestMsg)))"
proof -
  have eq: "onMessageReceived_client s connection (Request requestMsg kTime) now =
     s\<lparr>trace := trace s @ [Session_send connection (Time
        \<lparr>time_refersTo = msg_id requestMsg,
         time_latency =
           to_double
             (real_of_int (sint (sec (received requestMsg) - sec (sent requestMsg)))
              + to_double
                  (real_of_int (sint (usec (received requestMsg) - usec (sent requestMsg)))
                   / 1000000))\<rparr>)]\<rparr>"
    by (simp add: emit_def)
  note err = latency_error [OF sint32_abs sint32_abs,
      of "sec (received requestMsg) - sec (sent requestMsg)"
         "usec (received requestMsg) - usec (sent requestMsg)"]
  show ?thesis using eq err by (simp add: sint_diff_exact)
qed

theorem time_request_reply_witness:
  "onMessageReceived_client sample_server 2
     (Request \<lparr>msg_id = 7, sent = \<lparr>sec = 100, usec = 999000\<rparr>, received = \<lparr>sec = 101, usec = 500\<rparr>\<rparr> kTime)
     \<lparr>tv_sec = 101, tv_usec = 600\<rparr>
   = sample_server\<lparr>trace := trace sample_server @
       [Session_send 2 (Time \<lparr>time_refersTo = 7,
                              time_latency = 13510798882111 / 9007199254740992\<rparr>)]\<rparr>
   \<and> \<bar>13510798882111 / 9007199254740992 - (3 / 2000 :: real)\<bar> \<le> 1 / 2 ^ 21"
proof -
  let ?r = "\<lparr>msg_id = 7, sent = \<lparr>sec = 100, usec = 999000\<rparr>, received = \<lparr>sec = 101, usec = 500\<rparr>\<rparr>"
  have fits: "- (2 ^ 31) \<le> sint (sec (received ?r)) - sint (sec (sent ?r))
        \<and> sint (sec (received ?r)) - sint (sec (sent ?r)) < 2 ^ 31
        \<and> - (2 ^ 31) \<le> sint (usec (received ?r)) - sint (usec (sent ?r))
        \<and> sint (usec (received ?r)) - sint (usec (sent ?r)) < 2 ^ 31"
    by simp
  note th = time_request_reply [of sample_server 2 ?r "\<lparr>tv_sec = 101, tv_usec = 600\<rparr>"]
  note d = th [THEN conjunct2, THEN conjunct2, rule_format, OF fits]
  have d1: "sint (sec (received ?r) - sec (sent ?r)) = 1" unfolding d [THEN conjunct1] by simp
  have d2: "sint (usec (received ?r) - usec (sent ?r)) = - 998500"
    unfolding d [THEN conjunct2] by simp
  have q: "to_double (real_of_int (- 998500) / 1000000) = - 8993688455858881 / 9007199254740992"
    by (simp add: to_double_def ulp_def binade_def round_to_even_def eval_nat_numeral)
  have l: "to_double (real_of_int 1 + - 8993688455858881 / 9007199254740992)
             = 13510798882111 / 9007199254740992"
    by (simp add: to_double_def ulp_def binade_def round_to_even_def eval_nat_numeral)
  have v: "to_double (real_of_int (sint (sec (received ?r) - sec (sent ?r)))
              + to_double (real_of_int (sint (usec (received ?r) - usec (sent ?r))) / 1000000))
           = 13510798882111 / 9007199254740992"
    unfolding d1 d2 q l ..
  have e: "\<bar>13510798882111 / 9007199254740992 - (3 / 2000 :: real)\<bar> \<le> 1 / 2 ^ 21"
    using th [THEN conjunct2, THEN conjunct1] unfolding v d1 d2 by simp
  show ?thesis using th [THEN conjunct1] e unfolding v by simp
qed

subsection \<open>The order of the effects of a setter\<close>

text \<open>
  C6, as the spec states it, asks for the save of the config before the ServerSettings frame
  is pushed. The dispatcher pushes first: for the sample request the frame is the event
  before the save.
\<close>

theorem persist_before_push_counterexample:
  "position is_push (emitted sample_server (onMessageReceived_control sample_server 9 volume_request)) = 1
   \<and> position is_save (emitted sample_server (onMessageReceived_control sample_server 9 volume_request)) = 2
   \<and> \<not> (position is_save (emitted sample_server (onMessageReceived_control sample_server 9 volume_request))
        < position is_push (emitted sample_server (onMessageReceived_control sample_server 9 volume_request)))"
proof -
  have a: "getParam_string volume_request ''client'' = Inr ''00:11:22:33:44:55''"
    by (rule sample_requests)
  have b: "findClientInfo ''00:11:22:33:44:55'' (clients (config sample_server)) = Some sample_client"
    by (simp add: sample_facts)
  have c: "spec_mutation (bufferMs sample_server) volume_request sample_client
       = Some (JInt 42, sample_client\<lparr>volume := \<lparr>percent = 42, muted = False\<rparr>\<rparr>)"
    by (simp add: sample_facts sample_requests)
  show ?thesis
    unfolding setter_eq [OF a b c]
    by (simp add: emitted_def pushed_def sample_facts position_Cons position_Nil)
qed

text \<open>
  C6, amended. The effects of a successful setter come in this order: the assignment to the
  ClientInfo, the ServerSettings frame to the client's session if the roster has one, the
  save of the config (which holds the changed record), the \<^verbatim>\<open>Client.OnUpdate\<close>
  notification, the response. So the notification comes after the save, and the save comes
  after the push.
\<close>

theorem setter_effects_in_order:
  assumes "getParam_string r ''client'' = Inr mac"
      and "findClientInfo mac (clients (config s)) = Some c"
      and "spec_mutation (bufferMs s) r c = Some (res, c')"
  shows "(let s' = onMessageReceived_control s connection r
          in emitted s s' =
               [ClientInfo_assign mac] @ pushed s mac c'
               @ [Config_save (clients (config s')),
                  Control_send (Notification ''Client.OnUpdate'' c'),
                  Reply connection (Result res (req_id r))]
             \<and> findClientInfo mac (clients (config s')) = Some c'
             \<and> position is_save (emitted s s') < position is_update (emitted s s')
             \<and> (getClientSession mac s \<noteq> None \<longrightarrow>
                  position is_push (emitted s s') < position is_save (emitted s s')))"
proof -
  have m: "MAC c' = mac"
    using spec_mutation_MAC [OF assms(3)] findClientInfo_MAC [OF assms(2)] by simp
  have f: "findClientInfo mac (putClientInfo c' (clients (config s))) = Some c'"
    by (rule find_put [OF m assms(2)])
  show ?thesis
    unfolding Let_def setter_eq [OF assms]
    using f
    by (auto simp add: emitted_def pushed_def position_Cons position_Nil split: option.splits)
qed

theorem setter_effects_in_order_witness:
  "getParam_string volume_request ''client'' = Inr ''00:11:22:33:44:55''
   \<and> findClientInfo ''00:11:22:33:44:55'' (clients (config sample_server)) = Some sample_client
   \<and> spec_mutation (bufferMs sample_server) volume_request sample_client
       = Some (JInt 42, sample_client\<lparr>volume := \<lparr>percent = 42, muted = False\<rparr>\<rparr>)
   \<and> trace (onMessageReceived_control sample_server 9 volume_request) =
       [ClientInfo_assign ''00:11:22:33:44:55'',
        Session_send 1 (ServerSettings \<lparr>ss_refersTo = 0, ss_bufferMs = 1000, ss_volume = 42,
                                        ss_muted = False, ss_latency = 20\<rparr>),
        Config_save [sample_client\<lparr>volume := \<lparr>percent = 42, muted = False\<rparr>\<rparr>],
        Control_send (Notification ''Client.OnUpdate''
                        (sample_client\<lparr>volume := \<lparr>percent = 42, muted = False\<rparr>\<rparr>)),
        Reply 9 (Result (JInt 42) 1)]"
proof -
  have a: "getParam_string volume_request ''client'' = Inr ''00:11:22:33:44:55''"
    by (rule sample_requests)
  have b: "findClientInfo ''00:11:22:33:44:55'' (clients (config sample_server)) = Some sample_client"
    by (simp add: sample_facts)
  have c: "spec_mutation (bufferMs sample_server) volume_request sample_client
       = Some (JInt 42, sample_client\<lparr>volume := \<lparr>percent = 42, muted = False\<rparr>\<rparr>)"
    by (simp add: sample_facts sample_requests)
  have i: "req_id volume_request = 1" by (simp add: volume_request_def)
  have e: "emitted sample_server s' = trace s'" for s'
    by (simp add: emitted_def sample_facts)
  note th = setter_effects_in_order [OF a b c, of 9, unfolded Let_def e, THEN conjunct1]
  note st = setter_effects_in_order [OF a b c, of 9, unfolded Let_def e, THEN conjunct2, THEN conjunct1]
  have cs: "clients (config (onMessageReceived_control sample_server 9 volume_request))
            = [sample_client\<lparr>volume := \<lparr>percent = 42, muted = False\<rparr>\<rparr>]"
    by (simp add: setter_eq [OF a b c] sample_facts sample_client_def)
  have t: "trace (onMessageReceived_control sample_server 9 volume_request) =
       [ClientInfo_assign ''00:11:22:33:44:55'',
        Session_send 1 (ServerSettings \<lparr>ss_refersTo = 0, ss_bufferMs = 1000, ss_volume = 42,
                                        ss_muted = False, ss_latency = 20\<rparr>),
        Config_save [sample_client\<lparr>volume := \<lparr>percent = 42, muted = False\<rparr>\<rparr>],
        Control_send (Notification ''Client.OnUpdate''
                        (sample_client\<lparr>volume := \<lparr>percent = 42, muted = False\<rparr>\<rparr>)),
        Reply 9 (Result (JInt 42) 1)]"
    unfolding th cs by (simp add: pushed_def sample_facts i sample_client_def)
  show ?thesis using a b c t by blast
qed

subsection \<open>Hello\<close>

text \<open>
  C7. A Hello on a client session binds the MAC address of the Hello to the session; the
  ClientInfo of that MAC is looked up, or created when the store has none; its ipAddress is
  set from the connection, hostName and version from the Hello, connected to true and
  lastSeen to the current time; the other records of the store stay as they are; then the
  config is saved, with the record in it, and \<^verbatim>\<open>Client.OnConnect\<close> with that ClientInfo
  is broadcast to the control peers. The roster is not changed.
\<close>

theorem hello_registers_client:
  "(let s' = onMessageReceived_client s connection (Hello helloMsg mac hostname vers) now;
        c5 = (obtained (config s) mac)\<lparr>ipAddress := ip (heap s connection), hostName := hostname,
                  version := vers, connected := True, lastSeen := now\<rparr>
    in macAddress (heap s' connection) = mac
       \<and> findClientInfo mac (clients (config s')) = Some c5
       \<and> MAC c5 = mac
       \<and> filter (\<lambda>x. MAC x \<noteq> mac) (clients (config s')) = filter (\<lambda>x. MAC x \<noteq> mac) (clients (config s))
       \<and> emitted s s' = obtained_events (config s) mac @ replicate 5 (ClientInfo_assign mac)
              @ [Config_save (clients (config s')), Control_send (Notification ''Client.OnConnect'' c5)]
       \<and> sessions s' = sessions s)"
proof -
  let ?c5 = "(obtained (config s) mac)\<lparr>ipAddress := ip (heap s connection), hostName := hostname,
                  version := vers, connected := True, lastSeen := now\<rparr>"
  have m: "MAC ?c5 = mac" by (simp add: obtained_MAC)
  have f: "findClientInfo mac (putClientInfo ?c5 (obtained_store (config s) mac)) = Some ?c5"
    by (rule find_put [OF m obtained_store_find])
  have o: "filter (\<lambda>x. MAC x \<noteq> mac) (putClientInfo ?c5 (obtained_store (config s) mac))
           = filter (\<lambda>x. MAC x \<noteq> mac) (clients (config s))"
    unfolding put_others [OF m]
    by (auto simp: obtained_store_def newClientInfo_def split: option.splits)
  show ?thesis
    unfolding hello_eq Let_def using f o by (simp add: emitted_def obtained_MAC)
qed

theorem hello_registers_client_witness:
  "macAddress (heap (onMessageReceived_client sample_server 2 sample_hello sample_now) 2)
     = ''00:11:22:33:44:77''
   \<and> findClientInfo ''00:11:22:33:44:77''
        (clients (config (onMessageReceived_client sample_server 2 sample_hello sample_now)))
       = Some \<lparr>MAC = ''00:11:22:33:44:77'', hostName = ''pi2'', ipAddress = ''10.0.0.6'',
               version = ''0.10'', name = [], connected = True, lastSeen = sample_now,
               volume = \<lparr>percent = 100, muted = False\<rparr>, latency = 0\<rparr>
   \<and> trace (onMessageReceived_client sample_server 2 sample_hello sample_now) =
       [ClientInfo_create ''00:11:22:33:44:77'',
        ClientInfo_assign ''00:11:22:33:44:77'', ClientInfo_assign ''00:11:22:33:44:77'',
        ClientInfo_assign ''00:11:22:33:44:77'', ClientInfo_assign ''00:11:22:33:44:77'',
        ClientInfo_assign ''00:11:22:33:44:77'',
        Config_save (clients (config (onMessageReceived_client sample_server 2 sample_hello sample_now))),
        Control_send (Notification ''Client.OnConnect''
          \<lparr>MAC = ''00:11:22:33:44:77'', hostName = ''pi2'', ipAddress = ''10.0.0.6'',
           version = ''0.10'', name = [], connected = True, lastSeen = sample_now,
           volume = \<lparr>percent = 100, muted = False\<rparr>, latency = 0\<rparr>)]"
proof -
  let ?h = "\<lparr>msg_id = 1, sent = \<lparr>sec = 100, usec = 0\<rparr>, received = \<lparr>sec = 100, usec = 40\<rparr>\<rparr>"
  have o: "obtained (config sample_server) ''00:11:22:33:44:77''
             = sample_blank\<lparr>MAC := ''00:11:22:33:44:77''\<rparr>"
    by (simp add: obtained_def newClientInfo_def sample_server_def findClientInfo_def sample_client_def)
  have ev: "obtained_events (config sample_server) ''00:11:22:33:44:77''
             = [ClientInfo_create ''00:11:22:33:44:77'']"
    by (simp add: obtained_events_def sample_server_def findClientInfo_def sample_client_def)
  have i: "ip (heap sample_server 2) = ''10.0.0.6''"
    by (simp add: sample_server_def sample_heap_def)
  have e: "emitted sample_server s' = trace s'" for s'
    by (simp add: emitted_def sample_facts)
  note th = hello_registers_client [of sample_server 2 ?h "''00:11:22:33:44:77''" "''pi2''" "''0.10''" sample_now,
      unfolded Let_def e o ev i, folded sample_hello_def]
  show ?thesis
    using th by (simp add: sample_blank_def numeral_eq_Suc)
qed

subsection \<open>Requests before Hello\<close>

text \<open>
  C8. On a session that has not said Hello (its MAC address is still empty), a Request of
  kind Time, ServerSettings, SampleFormat or Header is answered with the reply of that kind,
  in full: the Time message with the latency of the request; the ServerSettings message with
  the server's bufferMs and the volume, mute and latency of the ClientInfo of the empty MAC;
  the server's own sample format; the header of the pipe reader; each with the id of the
  request as refersTo. The state afterwards is given for each kind. The session is sent
  exactly that one message; the dispatcher does not ask for a MAC address, and the session
  still has none afterwards.
\<close>

theorem requests_answered_before_hello:
  assumes "macAddress (heap s connection) = []"
  shows "onMessageReceived_client s connection (Request requestMsg kTime) now =
           s\<lparr>trace := trace s @ [Session_send connection (Time
              \<lparr>time_refersTo = msg_id requestMsg,
               time_latency =
                 to_double
                   (real_of_int (sint (sec (received requestMsg) - sec (sent requestMsg)))
                    + to_double
                        (real_of_int (sint (usec (received requestMsg) - usec (sent requestMsg)))
                         / 1000000))\<rparr>)]\<rparr>
         \<and> onMessageReceived_client s connection (Request requestMsg kServerSettings) now =
           s\<lparr>config := (config s)\<lparr>clients := obtained_store (config s) []\<rparr>,
             trace := trace s @ [Lock] @ obtained_events (config s) []
               @ [Session_send connection (ServerSettings
                    \<lparr>ss_refersTo = msg_id requestMsg, ss_bufferMs = bufferMs s,
                     ss_volume = percent (volume (obtained (config s) [])),
                     ss_muted = muted (volume (obtained (config s) [])),
                     ss_latency = latency (obtained (config s) [])\<rparr>), Unlock]\<rparr>
         \<and> onMessageReceived_client s connection (Request requestMsg kSampleFormat) now =
           s\<lparr>sampleFormat := (sampleFormat s)\<lparr>sf_refersTo := msg_id requestMsg\<rparr>,
             trace := trace s @
               [Lock,
                Session_send connection
                  (SampleFormat ((sampleFormat s)\<lparr>sf_refersTo := msg_id requestMsg\<rparr>)),
                Unlock]\<rparr>
         \<and> onMessageReceived_client s connection (Request requestMsg kHeader) now =
           s\<lparr>pipeHeader := (pipeHeader s)\<lparr>hd_refersTo := msg_id requestMsg\<rparr>,
             trace := trace s @
               [Lock,
                Session_send connection (Header ((pipeHeader s)\<lparr>hd_refersTo := msg_id requestMsg\<rparr>)),
                Unlock]\<rparr>
         \<and> (\<forall>kind. kind \<noteq> kOtherRequest \<longrightarrow>
               (let s' = onMessageReceived_client s connection (Request requestMsg kind) now
                in map reply_of (sent_to connection (emitted s s')) = [Some (kind, msg_id requestMsg)]
                   \<and> macAddress (heap s' connection) = []))"
proof -
  have t: "onMessageReceived_client s connection (Request requestMsg kTime) now =
           s\<lparr>trace := trace s @ [Session_send connection (Time
              \<lparr>time_refersTo = msg_id requestMsg,
               time_latency =
                 to_double
                   (real_of_int (sint (sec (received requestMsg) - sec (sent requestMsg)))
                    + to_double
                        (real_of_int (sint (usec (received requestMsg) - usec (sent requestMsg)))
                         / 1000000))\<rparr>)]\<rparr>"
    by (simp add: emit_def)
  have v: "onMessageReceived_client s connection (Request requestMsg kServerSettings) now =
           s\<lparr>config := (config s)\<lparr>clients := obtained_store (config s) []\<rparr>,
             trace := trace s @ [Lock] @ obtained_events (config s) []
               @ [Session_send connection (ServerSettings
                    \<lparr>ss_refersTo = msg_id requestMsg, ss_bufferMs = bufferMs s,
                     ss_volume = percent (volume (obtained (config s) [])),
                     ss_muted = muted (volume (obtained (config s) [])),
                     ss_latency = latency (obtained (config s) [])\<rparr>), Unlock]\<rparr>"
    unfolding settings_request_eq Let_def assms ..
  have f: "onMessageReceived_client s connection (Request requestMsg kSampleFormat) now =
           s\<lparr>sampleFormat := (sampleFormat s)\<lparr>sf_refersTo := msg_id requestMsg\<rparr>,
             trace := trace s @
               [Lock,
                Session_send connection
                  (SampleFormat ((sampleFormat s)\<lparr>sf_refersTo := msg_id requestMsg\<rparr>)),
                Unlock]\<rparr>"
    by (simp add: emit_def Let_def)
  have h: "onMessageReceived_client s connection (Request requestMsg kHeader) now =
           s\<lparr>pipeHeader := (pipeHeader s)\<lparr>hd_refersTo := msg_id requestMsg\<rparr>,
             trace := trace s @
               [Lock,
                Session_send connection (Header ((pipeHeader s)\<lparr>hd_refersTo := msg_id requestMsg\<rparr>)),
                Unlock]\<rparr>"
    by (simp add: emit_def Let_def)
  have one: "(let s' = onMessageReceived_client s connection (Request requestMsg kind) now
                in map reply_of (sent_to connection (emitted s s')) = [Some (kind, msg_id requestMsg)]
                   \<and> macAddress (heap s' connection) = [])"
    if "kind \<noteq> kOtherRequest" for kind
  proof (cases kind)
    case kTime
    then show ?thesis unfolding kTime t Let_def using assms by (simp add: emitted_def)
  next
    case kServerSettings
    then show ?thesis
      unfolding kServerSettings v Let_def using assms
      by (simp add: emitted_def sent_to_append sent_to_obtained)
  next
    case kSampleFormat
    then show ?thesis unfolding kSampleFormat f Let_def using assms by (simp add: emitted_def)
  next
    case kHeader
    then show ?thesis unfolding kHeader h Let_def using assms by (simp add: emitted_def)
  next
    case kOtherRequest
    then show ?thesis using that by simp
  qed
  show ?thesis using t v f h one by blast
qed

theorem requests_answered_before_hello_witness:
  "macAddress (heap sample_server 2) = []
   \<and> trace (onMessageReceived_client sample_server 2
        (Request \<lparr>msg_id = 9, sent = \<lparr>sec = 100, usec = 0\<rparr>, received = \<lparr>sec = 100, usec = 40\<rparr>\<rparr> kHeader)
        sample_now) =
       [Lock,
        Session_send 2 (Header \<lparr>hd_refersTo = 9, hd_codec = ''ogg'', hd_payload = [79, 103, 103, 83]\<rparr>),
        Unlock]
   \<and> trace (onMessageReceived_client sample_server 2
        (Request \<lparr>msg_id = 10, sent = \<lparr>sec = 100, usec = 0\<rparr>, received = \<lparr>sec = 100, usec = 40\<rparr>\<rparr> kSampleFormat)
        sample_now) =
       [Lock,
        Session_send 2 (SampleFormat \<lparr>sf_refersTo = 10, sf_rate = 48000, sf_bits = 16, sf_channels = 2\<rparr>),
        Unlock]
   \<and> trace (onMessageReceived_client sample_server 2
        (Request \<lparr>msg_id = 11, sent = \<lparr>sec = 100, usec = 0\<rparr>, received = \<lparr>sec = 100, usec = 250000\<rparr>\<rparr> kTime)
        sample_now) =
       [Session_send 2 (Time \<lparr>time_refersTo = 11,
                              time_latency = 1 / 4\<rparr>)]
   \<and> trace (onMessageReceived_client sample_server 2
        (Request \<lparr>msg_id = 12, sent = \<lparr>sec = 100, usec = 0\<rparr>, received = \<lparr>sec = 100, usec = 40\<rparr>\<rparr> kServerSettings)
        sample_now) =
       [Lock, ClientInfo_create [],
        Session_send 2 (ServerSettings \<lparr>ss_refersTo = 12, ss_bufferMs = 1000, ss_volume = 100,
                                        ss_muted = False, ss_latency = 0\<rparr>),
        Unlock]
   \<and> map reply_of (sent_to 2 (emitted sample_server (onMessageReceived_client sample_server 2
        (Request \<lparr>msg_id = 9, sent = \<lparr>sec = 100, usec = 0\<rparr>, received = \<lparr>sec = 100, usec = 40\<rparr>\<rparr> kHeader)
        sample_now))) = [Some (kHeader, 9)]"
proof -
  let ?s = "\<lparr>sec = 100, usec = 0\<rparr>"
  let ?r = "\<lparr>sec = 100, usec = 40\<rparr>"
  have m: "macAddress (heap sample_server 2) = []"
    by (simp add: sample_server_def sample_heap_def)
  note th = requests_answered_before_hello [OF m]
  have tr: "trace sample_server = []" by (rule sample_facts)
  have hd: "pipeHeader sample_server = \<lparr>hd_refersTo = 0, hd_codec = ''ogg'', hd_payload = [79, 103, 103, 83]\<rparr>"
    by (simp add: sample_server_def)
  have sf: "sampleFormat sample_server = \<lparr>sf_refersTo = 0, sf_rate = 48000, sf_bits = 16, sf_channels = 2\<rparr>"
    by (simp add: sample_server_def)
  have ob: "obtained (config sample_server) [] = sample_blank"
    by (simp add: obtained_def newClientInfo_def sample_server_def findClientInfo_def
          sample_client_def sample_blank_def)
  have oe: "obtained_events (config sample_server) [] = [ClientInfo_create []]"
    by (simp add: obtained_events_def sample_server_def findClientInfo_def sample_client_def)
  have bf: "bufferMs sample_server = 1000" by (rule sample_facts)
  have q: "to_double (real_of_int 250000 / 1000000) = 1 / 4"
    by (simp add: to_double_def ulp_def binade_def round_to_even_def eval_nat_numeral)
  have l: "to_double (real_of_int 0 + 1 / 4) = 1 / 4"
    by (simp add: to_double_def ulp_def binade_def round_to_even_def eval_nat_numeral)
  let ?m = "\<lparr>msg_id = 11, sent = ?s, received = \<lparr>sec = 100, usec = 250000\<rparr>\<rparr>"
  have d: "sint (sec (received ?m) - sec (sent ?m)) = 0"
          "sint (usec (received ?m) - usec (sent ?m)) = 250000"
    by simp_all
  have w: "to_double (real_of_int (sint (sec (received ?m) - sec (sent ?m)))
              + to_double (real_of_int (sint (usec (received ?m) - usec (sent ?m))) / 1000000))
           = 1 / 4"
    unfolding d q l ..
  have a: "trace (onMessageReceived_client sample_server 2
        (Request \<lparr>msg_id = 9, sent = ?s, received = ?r\<rparr> kHeader) sample_now) =
       [Lock,
        Session_send 2 (Header \<lparr>hd_refersTo = 9, hd_codec = ''ogg'', hd_payload = [79, 103, 103, 83]\<rparr>),
        Unlock]"
    unfolding th [where requestMsg = "\<lparr>msg_id = 9, sent = ?s, received = ?r\<rparr>" and now = sample_now,
        THEN conjunct2, THEN conjunct2, THEN conjunct2, THEN conjunct1]
    by (simp add: tr hd)
  have b: "trace (onMessageReceived_client sample_server 2
        (Request \<lparr>msg_id = 10, sent = ?s, received = ?r\<rparr> kSampleFormat) sample_now) =
       [Lock,
        Session_send 2 (SampleFormat \<lparr>sf_refersTo = 10, sf_rate = 48000, sf_bits = 16, sf_channels = 2\<rparr>),
        Unlock]"
    unfolding th [where requestMsg = "\<lparr>msg_id = 10, sent = ?s, received = ?r\<rparr>" and now = sample_now,
        THEN conjunct2, THEN conjunct2, THEN conjunct1]
    by (simp add: tr sf)
  have c: "trace (onMessageReceived_client sample_server 2
        (Request ?m kTime) sample_now) =
       [Session_send 2 (Time \<lparr>time_refersTo = 11,
                              time_latency = 1 / 4\<rparr>)]"
    unfolding th [where requestMsg = ?m and now = sample_now, THEN conjunct1] w
    by (simp add: tr)
  have e: "trace (onMessageReceived_client sample_server 2
        (Request \<lparr>msg_id = 12, sent = ?s, received = ?r\<rparr> kServerSettings) sample_now) =
       [Lock, ClientInfo_create [],
        Session_send 2 (ServerSettings \<lparr>ss_refersTo = 12, ss_bufferMs = 1000, ss_volume = 100,
                                        ss_muted = False, ss_latency = 0\<rparr>),
        Unlock]"
    unfolding th [where requestMsg = "\<lparr>msg_id = 12, sent = ?s, received = ?r\<rparr>" and now = sample_now,
        THEN conjunct2, THEN conjunct1]
    by (simp add: tr ob oe bf sample_blank_def)
  have k: "kHeader \<noteq> kOtherRequest" by simp
  have g: "map reply_of (sent_to 2 (emitted sample_server (onMessageReceived_client sample_server 2
        (Request \<lparr>msg_id = 9, sent = ?s, received = ?r\<rparr> kHeader) sample_now))) = [Some (kHeader, 9)]"
    using th [where requestMsg = "\<lparr>msg_id = 9, sent = ?s, received = ?r\<rparr>" and now = sample_now,
        THEN conjunct2, THEN conjunct2, THEN conjunct2, THEN conjunct2, rule_format, OF k]
    by (simp add: Let_def)
  show ?thesis using m a b c e g by blast
qed

subsection \<open>ServerSettings before Hello\<close>

text \<open>
  C10. On a session whose MAC address is still the empty string, a Request of kind
  ServerSettings makes the coordinator look up the ClientInfo of the empty MAC with creation:
  when the store has no such record, one with the empty MAC is added to it. The reply is a
  ServerSettings message with the volume, mute and latency of that record and the server's
  bufferMs, and its refersTo is the id of the request. All of it happens under the lock.
\<close>

theorem settings_request_before_hello:
  assumes "macAddress (heap s connection) = []"
  shows "(let s' = onMessageReceived_client s connection (Request requestMsg kServerSettings) now;
              c = (case findClientInfo [] (clients (config s)) of
                     Some c \<Rightarrow> c | None \<Rightarrow> (blank (config s))\<lparr>MAC := []\<rparr>)
          in clients (config s') =
               (case findClientInfo [] (clients (config s)) of
                  Some c \<Rightarrow> clients (config s)
                | None \<Rightarrow> clients (config s) @ [(blank (config s))\<lparr>MAC := []\<rparr>])
             \<and> findClientInfo [] (clients (config s')) = Some c
             \<and> MAC c = []
             \<and> emitted s s' =
                 [Lock]
                 @ (case findClientInfo [] (clients (config s)) of
                      Some c \<Rightarrow> [] | None \<Rightarrow> [ClientInfo_create []])
                 @ [Session_send connection (ServerSettings
                      \<lparr>ss_refersTo = msg_id requestMsg, ss_bufferMs = bufferMs s,
                       ss_volume = percent (volume c), ss_muted = muted (volume c),
                       ss_latency = latency c\<rparr>), Unlock])"
proof -
  have c: "(case findClientInfo [] (clients (config s)) of
              Some c \<Rightarrow> c | None \<Rightarrow> (blank (config s))\<lparr>MAC := []\<rparr>) = obtained (config s) []"
    by (simp add: obtained_def newClientInfo_def split: option.splits)
  have st: "(case findClientInfo [] (clients (config s)) of
                  Some c \<Rightarrow> clients (config s)
                | None \<Rightarrow> clients (config s) @ [(blank (config s))\<lparr>MAC := []\<rparr>]) = obtained_store (config s) []"
    by (simp add: obtained_store_def newClientInfo_def split: option.splits)
  have ev: "(case findClientInfo [] (clients (config s)) of
                      Some c \<Rightarrow> [] | None \<Rightarrow> [ClientInfo_create []]) = obtained_events (config s) []"
    by (simp add: obtained_events_def split: option.splits)
  show ?thesis
    unfolding c st ev settings_request_eq Let_def assms
    by (simp add: emitted_def obtained_store_find obtained_MAC)
qed

theorem settings_request_before_hello_witness:
  "macAddress (heap sample_server 2) = []
   \<and> clients (config (onMessageReceived_client sample_server 2
        (Request \<lparr>msg_id = 5, sent = \<lparr>sec = 100, usec = 0\<rparr>, received = \<lparr>sec = 100, usec = 40\<rparr>\<rparr> kServerSettings)
        \<lparr>tv_sec = 100, tv_usec = 50\<rparr>)) = [sample_client, sample_blank]
   \<and> trace (onMessageReceived_client sample_server 2
        (Request \<lparr>msg_id = 5, sent = \<lparr>sec = 100, usec = 0\<rparr>, received = \<lparr>sec = 100, usec = 40\<rparr>\<rparr> kServerSettings)
        \<lparr>tv_sec = 100, tv_usec = 50\<rparr>) =
       [Lock, ClientInfo_create [],
        Session_send 2 (ServerSettings \<lparr>ss_refersTo = 5, ss_bufferMs = 1000, ss_volume = 100,
                                        ss_muted = False, ss_latency = 0\<rparr>),
        Unlock]"
proof -
  let ?r = "\<lparr>msg_id = 5, sent = \<lparr>sec = 100, usec = 0\<rparr>, received = \<lparr>sec = 100, usec = 40\<rparr>\<rparr>"
  let ?now = "\<lparr>tv_sec = 100, tv_usec = 50\<rparr>"
  have m: "macAddress (heap sample_server 2) = []"
    by (simp add: sample_server_def sample_heap_def)
  have f: "findClientInfo [] [sample_client] = None"
    by (simp add: sample_client_def findClientInfo_def)
  have b: "(blank (config sample_server))\<lparr>MAC := []\<rparr> = sample_blank"
    by (simp add: sample_server_def sample_blank_def)
  have cs: "clients (config sample_server) = [sample_client]" by (simp add: sample_server_def)
  have tr: "trace sample_server = []" by (simp add: sample_server_def)
  have bf: "bufferMs sample_server = 1000" by (simp add: sample_server_def)
  note th = settings_request_before_hello [OF m, of ?r ?now, unfolded Let_def cs f option.case b]
  have e: "emitted sample_server (onMessageReceived_client sample_server 2 (Request ?r kServerSettings) ?now)
         = trace (onMessageReceived_client sample_server 2 (Request ?r kServerSettings) ?now)"
    by (simp add: emitted_def tr)
  show ?thesis
    using m th unfolding e by (simp add: bf sample_blank_def)
qed

subsection \<open>The lock\<close>

text \<open>
  C9. The broadcast of a chunk, \<^verbatim>\<open>handleAccept\<close> and the ServerSettings request change
  the roster and the store between \<open>Lock\<close> and \<open>Unlock\<close>. The Hello branch, the setters
  of the JSON-RPC dispatcher and \<^verbatim>\<open>onDisconnect\<close> never take the lock: on the sample
  server each of them changes the ClientInfo store while the lock is not held.
\<close>

theorem store_written_without_lock:
  "guarded False (trace (onChunkRead sample_server sample_chunk))
   \<and> guarded False (trace (handleAccept sample_server 4 \<lparr>macAddress = [], active = True, ip = ''10.0.0.8''\<rparr>))
   \<and> guarded False (trace (onMessageReceived_client sample_server 2
        (Request \<lparr>msg_id = 5, sent = \<lparr>sec = 100, usec = 0\<rparr>, received = \<lparr>sec = 100, usec = 40\<rparr>\<rparr> kServerSettings)
        sample_now))
   \<and> \<not> guarded False (trace (onMessageReceived_client sample_server 2 sample_hello sample_now))
   \<and> \<not> guarded False (trace (onMessageReceived_control sample_server 9 volume_request))
   \<and> \<not> guarded False (trace (onDisconnect sample_server 1 sample_now))"
proof -
  have d: "distinct (sessions sample_server)" by (simp add: sample_server_def)
  have t: "trace sample_server = []" by (rule sample_facts)
  have g1: "guarded False (trace (onChunkRead sample_server sample_chunk))"
    unfolding onChunkRead_def send_eq [OF d]
    by (simp add: sample_server_def sample_heap_def reaped_def)
  have g2: "guarded False (trace (handleAccept sample_server 4 \<lparr>macAddress = [], active = True, ip = ''10.0.0.8''\<rparr>))"
    by (simp add: handleAccept_def emit_def Let_def t)
  have g3: "guarded False (trace (onMessageReceived_client sample_server 2
        (Request \<lparr>msg_id = 5, sent = \<lparr>sec = 100, usec = 0\<rparr>, received = \<lparr>sec = 100, usec = 40\<rparr>\<rparr> kServerSettings)
        sample_now))"
    unfolding settings_request_eq Let_def
    by (simp add: t obtained_events_def split: option.splits)
  have b1: "\<not> guarded False (trace (onMessageReceived_client sample_server 2 sample_hello sample_now))"
    unfolding sample_hello_def hello_eq Let_def
    by (simp add: t obtained_events_def numeral_eq_Suc split: option.splits)
  have a: "getParam_string volume_request ''client'' = Inr ''00:11:22:33:44:55''"
    by (rule sample_requests)
  have b: "findClientInfo ''00:11:22:33:44:55'' (clients (config sample_server)) = Some sample_client"
    by (simp add: sample_facts)
  have c: "spec_mutation (bufferMs sample_server) volume_request sample_client
       = Some (JInt 42, sample_client\<lparr>volume := \<lparr>percent = 42, muted = False\<rparr>\<rparr>)"
    by (simp add: sample_facts sample_requests)
  have b2: "\<not> guarded False (trace (onMessageReceived_control sample_server 9 volume_request))"
    unfolding setter_eq [OF a b c] by (simp add: t)
  have b3: "\<not> guarded False (trace (onDisconnect sample_server 1 sample_now))"
    by (simp add: onDisconnect_def getClientInfo_create assign_def save_def emit_def Let_def t
          obtained_events_def split: option.splits)
  show ?thesis using g1 g2 g3 b1 b2 b3 by blast
qed

end
